theory Spec2Isabelle
  imports Main
begin

section \<open>Python values and built-ins used by the notebook\<close>

text \<open>
  The notebook \<^verbatim>\<open>examples/regression_fluorosence_task.ipynb\<close> is a Python script.
  Exceptions are values of \<open>py_error\<close>; a computation that may raise returns
  \<open>py_error + 'a\<close>, with \<open>Inl\<close> the exception.
\<close>

datatype py_error = ValueError | IndexError | KeyError

text \<open>
  A protein sequence reaches \<^verbatim>\<open>preprocess_dataset\<close> as a Python \<^verbatim>\<open>str\<close>; after the
  first call the global \<^verbatim>\<open>training_sequences\<close> holds lists of one-character strings.
  Both support \<^verbatim>\<open>len\<close>, slicing and \<^verbatim>\<open>list(...)\<close>, so a sequence value is either.
  A \<^verbatim>\<open>str\<close> is a list of characters (residue letters are ASCII, one character each).
\<close>

datatype pyseq = Str string | Lst "string list"

fun py_len :: "pyseq \<Rightarrow> nat" where
  "py_len (Str s) = length s"
| "py_len (Lst xs) = length xs"

text \<open>
  A slice bound of Python, clamped into \<open>0..n\<close>: a negative bound counts from the end.
\<close>

definition slice_bound :: "int \<Rightarrow> nat \<Rightarrow> nat" where
  "slice_bound i n = (if i < 0 then nat (max 0 (int n + i)) else min (nat i) n)"

text \<open>\<^verbatim>\<open>xs[lo:hi]\<close>; a bound that is left out is \<open>None\<close>.\<close>

definition py_slice :: "int option \<Rightarrow> int option \<Rightarrow> 'a list \<Rightarrow> 'a list" where
  "py_slice lo hi xs =
     (let n = length xs;
          a = (case lo of None \<Rightarrow> 0 | Some i \<Rightarrow> slice_bound i n);
          b = (case hi of None \<Rightarrow> n | Some j \<Rightarrow> slice_bound j n)
      in take (b - a) (drop a xs))"

text \<open>\<^verbatim>\<open>seq[:max_length]\<close> on a string or a list.\<close>

fun slice_to :: "int \<Rightarrow> pyseq \<Rightarrow> pyseq" where
  "slice_to L (Str s) = Str (py_slice None (Some L) s)"
| "slice_to L (Lst xs) = Lst (py_slice None (Some L) xs)"

text \<open>\<^verbatim>\<open>list(seq)\<close>: a string becomes the list of its one-character strings.\<close>

fun list_of :: "pyseq \<Rightarrow> string list" where
  "list_of (Str s) = map (\<lambda>c. [c]) s"
| "list_of (Lst xs) = xs"

text \<open>
  \<^verbatim>\<open>max(xs, key=k)\<close>: the first element whose key is greatest; \<^verbatim>\<open>ValueError\<close> on
  an empty list.
\<close>

fun py_max_key :: "('a \<Rightarrow> nat) \<Rightarrow> 'a list \<Rightarrow> py_error + 'a" where
  "py_max_key k [] = Inl ValueError"
| "py_max_key k (x # xs) = Inr (foldl (\<lambda>m y. if k m < k y then y else m) x xs)"

section \<open>The preprocessor\<close>

text \<open>
  \<^verbatim>\<open>
  def preprocess_dataset(sequences, labels, max_length=None):
      if max_length is None:
          max_length = len(max(training_sequences, key=lambda x: len(x)))
      splitted_sequences = [list(seq[:max_length]) for seq in sequences]
      return splitted_sequences, labels
  \<close>
  The global \<^verbatim>\<open>training_sequences\<close> that the function reads is its first argument here.
\<close>

definition default_max_length :: "pyseq list \<Rightarrow> py_error + int" where
  "default_max_length training_sequences =
     (case py_max_key py_len training_sequences of
        Inl e \<Rightarrow> Inl e
      | Inr m \<Rightarrow> Inr (int (py_len m)))"

text \<open>The body of the comprehension, \<^verbatim>\<open>list(seq[:max_length])\<close>.\<close>

definition truncate_seq :: "int \<Rightarrow> pyseq \<Rightarrow> string list" where
  "truncate_seq max_length seq = list_of (slice_to max_length seq)"

text \<open>The value of \<^verbatim>\<open>max_length\<close> after the \<^verbatim>\<open>if max_length is None\<close> statement.\<close>

definition effective_max_length :: "pyseq list \<Rightarrow> int option \<Rightarrow> py_error + int" where
  "effective_max_length training_sequences max_length =
     (case max_length of
        None \<Rightarrow> default_max_length training_sequences
      | Some L \<Rightarrow> Inr L)"

definition preprocess_dataset ::
  "pyseq list \<Rightarrow> pyseq list \<Rightarrow> 'l \<Rightarrow> int option \<Rightarrow> py_error + (string list list \<times> 'l)" where
  "preprocess_dataset training_sequences sequences labels max_length =
     (case effective_max_length training_sequences max_length of
        Inl e \<Rightarrow> Inl e
      | Inr L \<Rightarrow> Inr (map (truncate_seq L) sequences, labels))"

text \<open>
  The cell that preprocesses the three splits. Each call reads the global
  \<^verbatim>\<open>training_sequences\<close>, and the first line rebinds it to the lists of characters:
  \<^verbatim>\<open>
  training_sequences, training_labels = preprocess_dataset(training_sequences, training_labels)
  validation_sequences, validation_labels = preprocess_dataset(validation_sequences, validation_labels)
  test_sequences, test_labels = preprocess_dataset(test_sequences, test_labels)
  \<close>
\<close>

definition preprocess_cell ::
  "pyseq list \<Rightarrow> 'l \<Rightarrow> pyseq list \<Rightarrow> 'l \<Rightarrow> pyseq list \<Rightarrow> 'l \<Rightarrow>
   py_error + ((string list list \<times> 'l) \<times> (string list list \<times> 'l) \<times> (string list list \<times> 'l))" where
  "preprocess_cell training_sequences training_labels validation_sequences validation_labels
     test_sequences test_labels =
     (case preprocess_dataset training_sequences training_sequences training_labels None of
        Inl e \<Rightarrow> Inl e
      | Inr (training_sequences', training_labels') \<Rightarrow>
          (case preprocess_dataset (map Lst training_sequences')
                  validation_sequences validation_labels None of
             Inl e \<Rightarrow> Inl e
           | Inr validation \<Rightarrow>
               (case preprocess_dataset (map Lst training_sequences')
                       test_sequences test_labels None of
                  Inl e \<Rightarrow> Inl e
                | Inr test \<Rightarrow>
                    Inr ((training_sequences', training_labels'), validation, test))))"

section \<open>Tensors and arrays\<close>

text \<open>
  A torch tensor or a numpy array, as far as the notebook looks at it: the element
  type, the shape, and the elements in row-major order. The element values are of an
  abstract type \<open>'a\<close>; conversions between floating-point formats are a parameter.
\<close>

datatype dtype = Float32 | Float64 | Int64

record 'a ndarray =
  nd_dtype :: dtype
  nd_shape :: "nat list"
  nd_data :: "'a list"

text \<open>
  \<^verbatim>\<open>t[i]\<close> with an integer \<open>i\<close>: the \<open>i\<close>-th slab along the first axis. A negative
  index counts from the end; an index out of range, or indexing a 0-dimensional
  tensor, raises \<^verbatim>\<open>IndexError\<close>.
\<close>

definition nd_index :: "'a ndarray \<Rightarrow> int \<Rightarrow> py_error + 'a ndarray" where
  "nd_index t i =
     (case nd_shape t of
        [] \<Rightarrow> Inl IndexError
      | n # rest \<Rightarrow>
          (let j = (if i < 0 then int n + i else i) in
           if 0 \<le> j \<and> j < int n
           then Inr \<lparr>nd_dtype = nd_dtype t, nd_shape = rest,
                     nd_data = take (prod_list rest) (drop (nat j * prod_list rest) (nd_data t))\<rparr>
           else Inl IndexError))"

text \<open>\<^verbatim>\<open>t[lo:hi]\<close>: the rows \<open>lo..hi-1\<close> along the first axis, bounds clamped as for lists.\<close>

definition nd_slice :: "int \<Rightarrow> int \<Rightarrow> 'a ndarray \<Rightarrow> py_error + 'a ndarray" where
  "nd_slice lo hi t =
     (case nd_shape t of
        [] \<Rightarrow> Inl IndexError
      | n # rest \<Rightarrow>
          (let a = slice_bound lo n; b = slice_bound hi n in
           Inr \<lparr>nd_dtype = nd_dtype t, nd_shape = (b - a) # rest,
                 nd_data = take ((b - a) * prod_list rest)
                             (drop (a * prod_list rest) (nd_data t))\<rparr>))"

text \<open>\<^verbatim>\<open>torch.tensor(a)\<close> of an array: a new tensor of the same element type, shape and data.\<close>

definition torch_tensor :: "'a ndarray \<Rightarrow> 'a ndarray" where
  "torch_tensor a = \<lparr>nd_dtype = nd_dtype a, nd_shape = nd_shape a, nd_data = nd_data a\<rparr>"

text \<open>
  \<^verbatim>\<open>torch.tensor(x, dtype=d)\<close> of a Python number: a 0-dimensional tensor holding \<open>x\<close>
  converted to \<open>d\<close>. The conversion \<open>cast\<close> is a parameter.
\<close>

definition torch_scalar :: "(dtype \<Rightarrow> 'a \<Rightarrow> 'a) \<Rightarrow> 'a \<Rightarrow> dtype \<Rightarrow> 'a ndarray" where
  "torch_scalar cast x d = \<lparr>nd_dtype = d, nd_shape = [], nd_data = [cast d x]\<rparr>"

text \<open>
  \<^verbatim>\<open>t.unsqueeze(dim)\<close>: a dimension of size one inserted at \<open>dim\<close>, which ranges over
  \<open>-(n+1)..n\<close> for an \<open>n\<close>-dimensional tensor (a negative \<open>dim\<close> is \<open>dim + n + 1\<close>).
\<close>

definition unsqueeze :: "'a ndarray \<Rightarrow> int \<Rightarrow> py_error + 'a ndarray" where
  "unsqueeze t dim =
     (let n = int (length (nd_shape t));
          d = (if dim < 0 then dim + n + 1 else dim) in
      if 0 \<le> d \<and> d \<le> n
      then Inr (t\<lparr>nd_shape := take (nat d) (nd_shape t) @ [1] @ drop (nat d) (nd_shape t)\<rparr>)
      else Inl IndexError)"

text \<open>
  \<^verbatim>\<open>xs[i]\<close> on a list of length \<open>n\<close>: the indices \<open>0..n-1\<close> count from the front,
  the indices \<open>-n..-1\<close> from the end, and any other raises \<^verbatim>\<open>IndexError\<close>.
\<close>

definition py_getitem :: "'a list \<Rightarrow> int \<Rightarrow> py_error + 'a" where
  "py_getitem xs i =
     (if 0 \<le> i \<and> i < int (length xs) then Inr (xs ! nat i)
      else if i < 0 \<and> - int (length xs) \<le> i then Inr (xs ! nat (int (length xs) + i))
      else Inl IndexError)"

section \<open>The embedding extractor\<close>

text \<open>
  The state the extraction touches: the global gradient mode of torch, and the
  pretrained encoder (its training flag and its parameters). The last field is a
  trace added for verification: one entry per pass of the loop, recording the batch
  handed to the tokenizer, the ids handed to the encoder, and the gradient mode and
  training flag at the time of the forward pass.
\<close>

record forward_pass =
  pass_batch :: "string list list"
  pass_input :: "nat ndarray"
  pass_grad :: bool
  pass_training :: bool

record 'p world =
  grad_enabled :: bool
  model_training :: bool
  model_params :: 'p
  forward_passes :: "forward_pass list"

text \<open>\<^verbatim>\<open>model.eval()\<close>\<close>

definition model_eval :: "'p world \<Rightarrow> 'p world" where
  "model_eval w = w\<lparr>model_training := False\<rparr>"

text \<open>
  The tokenizer and the encoder are external (loaded by \<^verbatim>\<open>ankh.load_large_model()\<close>)
  and are parameters of the model: \<open>tok\<close> is \<^verbatim>\<open>tokenizer.batch_encode_plus\<close>, from the
  keyword arguments and a batch of pre-split samples to the encoding; \<open>fwd\<close> is the
  encoder's forward pass followed by \<^verbatim>\<open>[0]\<close> (the last hidden state), a function of the
  parameters, the training flag and the input ids. A forward pass reads the parameters
  and does not write them.
\<close>

record encode_options =
  add_special_tokens :: bool
  padding :: bool
  is_split_into_words :: bool
  return_tensors :: string

record batch_encoding =
  input_ids :: "nat ndarray"
  attention_mask :: "nat ndarray"

type_synonym tokenizer = "encode_options \<Rightarrow> string list list \<Rightarrow> batch_encoding"

type_synonym ('p, 'a) encoder = "'p \<Rightarrow> bool \<Rightarrow> nat ndarray \<Rightarrow> 'a ndarray"

definition embed_encode_options :: encode_options where
  "embed_encode_options =
     \<lparr>add_special_tokens = True, padding = True, is_split_into_words = True,
      return_tensors = ''pt''\<rparr>"

text \<open>
  \<^verbatim>\<open>
  def embed_dataset(model, sequences, shift_left = 0, shift_right = -1):
      inputs_embedding = []
      with torch.no_grad():
          for sample in tqdm(sequences):
              ids = tokenizer.batch_encode_plus([sample], add_special_tokens=True,
                                                padding=True, is_split_into_words=True,
                                                return_tensors="pt")
              embedding = model(input_ids=ids['input_ids'].to(device))[0]
              embedding = embedding[0].detach().cpu().numpy()[shift_left:shift_right]
              inputs_embedding.append(embedding)
      return inputs_embedding
  \<close>
  \<open>embed_sample\<close> is the body of the loop, \<open>embed_loop\<close> the loop with
  \<^verbatim>\<open>inputs_embedding\<close> as accumulator; an exception ends the loop.
\<close>

definition embed_sample ::
  "tokenizer \<Rightarrow> ('p, 'a) encoder \<Rightarrow> int \<Rightarrow> int \<Rightarrow> 'p world \<Rightarrow> string list
   \<Rightarrow> (py_error + 'a ndarray) \<times> 'p world" where
  "embed_sample tok fwd shift_left shift_right w sample =
     (let ids = tok embed_encode_options [sample];
          embedding = fwd (model_params w) (model_training w) (input_ids ids);
          w' = w\<lparr>forward_passes := forward_passes w @
                 [\<lparr>pass_batch = [sample], pass_input = input_ids ids,
                   pass_grad = grad_enabled w, pass_training = model_training w\<rparr>]\<rparr>
      in (case nd_index embedding 0 of
            Inl e \<Rightarrow> (Inl e, w')
          | Inr embedding0 \<Rightarrow> (nd_slice shift_left shift_right embedding0, w')))"

fun embed_loop ::
  "tokenizer \<Rightarrow> ('p, 'a) encoder \<Rightarrow> int \<Rightarrow> int \<Rightarrow> 'p world \<Rightarrow> 'a ndarray list
   \<Rightarrow> string list list \<Rightarrow> (py_error + 'a ndarray list) \<times> 'p world" where
  "embed_loop tok fwd shift_left shift_right w inputs_embedding [] = (Inr inputs_embedding, w)"
| "embed_loop tok fwd shift_left shift_right w inputs_embedding (sample # rest) =
     (case embed_sample tok fwd shift_left shift_right w sample of
        (r, w') \<Rightarrow>
          (case r of
             Inl e \<Rightarrow> (Inl e, w')
           | Inr embedding \<Rightarrow>
               embed_loop tok fwd shift_left shift_right w' (inputs_embedding @ [embedding])
                 rest))"

text \<open>
  \<^verbatim>\<open>with torch.no_grad()\<close> switches the gradient mode off on entry and restores the
  previous mode on exit, also when the block raises.
\<close>

definition embed_dataset ::
  "tokenizer \<Rightarrow> ('p, 'a) encoder \<Rightarrow> 'p world \<Rightarrow> string list list \<Rightarrow> int \<Rightarrow> int
   \<Rightarrow> (py_error + 'a ndarray list) \<times> 'p world" where
  "embed_dataset tok fwd w sequences shift_left shift_right =
     (let prev = grad_enabled w in
      case embed_loop tok fwd shift_left shift_right (w\<lparr>grad_enabled := False\<rparr>) [] sequences of
        (r, w') \<Rightarrow> (r, w'\<lparr>grad_enabled := prev\<rparr>))"

section \<open>The dataset adapter\<close>

text \<open>
  \<^verbatim>\<open>
  class FluorescenceDataset(Dataset):
      def __init__(self, sequences, labels):
          self.sequences = sequences
          self.labels = labels

      def __getitem__(self, idx):
          sample = self.sequences[idx]
          label = self.labels[idx]
          return {
              'embed': torch.tensor(sample),
              'labels': torch.tensor(label, dtype=torch.float32).unsqueeze(-1)}

      def __len__(self):
          return len(self.labels)
  \<close>
  \<open>FluorescenceDataset\<close> is the constructor, \<open>dataset_getitem\<close> is \<^verbatim>\<open>__getitem__\<close>
  and \<open>dataset_len\<close> is \<^verbatim>\<open>__len__\<close>. Each method returns the object next to its
  result, so that what a method does to the stored lists is part of the model.
\<close>

record 'a fluorescence_dataset =
  self_sequences :: "'a ndarray list"
  self_labels :: "'a list"

record 'a item =
  item_embed :: "'a ndarray"
  item_labels :: "'a ndarray"

definition FluorescenceDataset :: "'a ndarray list \<Rightarrow> 'a list \<Rightarrow> 'a fluorescence_dataset" where
  "FluorescenceDataset sequences labels = \<lparr>self_sequences = sequences, self_labels = labels\<rparr>"

definition dataset_getitem ::
  "(dtype \<Rightarrow> 'a \<Rightarrow> 'a) \<Rightarrow> 'a fluorescence_dataset \<Rightarrow> int
   \<Rightarrow> (py_error + 'a item) \<times> 'a fluorescence_dataset" where
  "dataset_getitem cast self idx =
     (case py_getitem (self_sequences self) idx of
        Inl e \<Rightarrow> (Inl e, self)
      | Inr sample \<Rightarrow>
          (case py_getitem (self_labels self) idx of
             Inl e \<Rightarrow> (Inl e, self)
           | Inr label \<Rightarrow>
               (case unsqueeze (torch_scalar cast label Float32) (- 1) of
                  Inl e \<Rightarrow> (Inl e, self)
                | Inr l \<Rightarrow> (Inr \<lparr>item_embed = torch_tensor sample, item_labels = l\<rparr>, self))))"

definition dataset_len :: "'a fluorescence_dataset \<Rightarrow> nat \<times> 'a fluorescence_dataset" where
  "dataset_len self = (length (self_labels self), self)"

section \<open>The cells of the notebook up to the datasets\<close>

text \<open>
  \<^verbatim>\<open>
  model, tokenizer = ankh.load_large_model()
  model.eval()
  ...
  training_sequences, training_labels = preprocess_dataset(training_sequences, training_labels)
  ...
  training_embeddings = embed_dataset(model, training_sequences)
  validation_embeddings = embed_dataset(model, validation_sequences)
  test_embeddings = embed_dataset(model, test_sequences)
  ...
  training_dataset = FluorescenceDataset(training_embeddings, training_labels)
  validation_dataset = FluorescenceDataset(validation_embeddings, validation_labels)
  test_ds = FluorescenceDataset(test_embeddings, test_labels)
  \<close>
  The arguments are the state after the model is loaded and the six lists read from the
  dataset; the first exception ends the run.
\<close>

definition extract_cell ::
  "tokenizer \<Rightarrow> ('p, 'a) encoder \<Rightarrow> 'p world
   \<Rightarrow> string list list \<Rightarrow> string list list \<Rightarrow> string list list
   \<Rightarrow> (py_error + ('a ndarray list \<times> 'a ndarray list \<times> 'a ndarray list)) \<times> 'p world" where
  "extract_cell tok fwd w training_sequences validation_sequences test_sequences =
     (case embed_dataset tok fwd w training_sequences 0 (- 1) of
        (r1, w1) \<Rightarrow>
          (case r1 of
             Inl e \<Rightarrow> (Inl e, w1)
           | Inr training_embeddings \<Rightarrow>
               (case embed_dataset tok fwd w1 validation_sequences 0 (- 1) of
                  (r2, w2) \<Rightarrow>
                    (case r2 of
                       Inl e \<Rightarrow> (Inl e, w2)
                     | Inr validation_embeddings \<Rightarrow>
                         (case embed_dataset tok fwd w2 test_sequences 0 (- 1) of
                            (r3, w3) \<Rightarrow>
                              (case r3 of
                                 Inl e \<Rightarrow> (Inl e, w3)
                               | Inr test_embeddings \<Rightarrow>
                                   (Inr (training_embeddings, validation_embeddings,
                                         test_embeddings), w3)))))))"

definition notebook ::
  "tokenizer \<Rightarrow> ('p, 'a) encoder \<Rightarrow> 'p world
   \<Rightarrow> pyseq list \<Rightarrow> 'a list \<Rightarrow> pyseq list \<Rightarrow> 'a list \<Rightarrow> pyseq list \<Rightarrow> 'a list
   \<Rightarrow> (py_error + ('a fluorescence_dataset \<times> 'a fluorescence_dataset \<times> 'a fluorescence_dataset))
      \<times> 'p world" where
  "notebook tok fwd w training_sequences training_labels validation_sequences validation_labels
     test_sequences test_labels =
     (let w0 = model_eval w in
      case preprocess_cell training_sequences training_labels validation_sequences
             validation_labels test_sequences test_labels of
        Inl e \<Rightarrow> (Inl e, w0)
      | Inr ((training_sequences', training_labels'),
             (validation_sequences', validation_labels'),
             (test_sequences', test_labels')) \<Rightarrow>
          (case extract_cell tok fwd w0 training_sequences' validation_sequences' test_sequences' of
             (r, w') \<Rightarrow>
               (case r of
                  Inl e \<Rightarrow> (Inl e, w')
                | Inr (training_embeddings, validation_embeddings, test_embeddings) \<Rightarrow>
                    (Inr (FluorescenceDataset training_embeddings training_labels',
                          FluorescenceDataset validation_embeddings validation_labels',
                          FluorescenceDataset test_embeddings test_labels'), w'))))"

section \<open>The training configuration\<close>

text \<open>
  \<^verbatim>\<open>
  def compute_metrics(p: EvalPrediction):
      return {
          "spearmanr": stats.spearmanr(p.label_ids, p.predictions).correlation,
      }
  \<close>
  The correlation routine of scipy is the parameter \<open>spearmanr\<close>. The returned dict
  is the list of its items.
\<close>

record 'a eval_prediction =
  predictions :: "'a list"
  label_ids :: "'a list"

definition compute_metrics ::
  "('a list \<Rightarrow> 'a list \<Rightarrow> 'a) \<Rightarrow> 'a eval_prediction \<Rightarrow> (string \<times> 'a) list" where
  "compute_metrics spearmanr p = [(''spearmanr'', spearmanr (label_ids p) (predictions p))]"

text \<open>
  The keyword arguments of \<^verbatim>\<open>TrainingArguments(...)\<close>, in the order of the source.
  The floating-point literals are kept as the source writes them.
\<close>

record training_arguments =
  output_dir :: string
  num_train_epochs :: nat
  per_device_train_batch_size :: nat
  per_device_eval_batch_size :: nat
  warmup_steps :: nat
  learning_rate :: string
  weight_decay :: string
  logging_dir :: string
  logging_steps :: nat
  do_train :: bool
  do_eval :: bool
  evaluation_strategy :: string
  gradient_accumulation_steps :: nat
  fp16 :: bool
  fp16_opt_level :: string
  run_name :: string
  seed :: nat
  load_best_model_at_end :: bool
  metric_for_best_model :: string
  greater_is_better :: bool
  save_strategy :: string

definition model_type :: string where
  "model_type = ''ankh_large''"

text \<open>The variable \<^verbatim>\<open>experiment\<close> of the notebook.\<close>

definition experiment_name :: string where
  "experiment_name = ''flu_'' @ model_type"

text \<open>The variable \<^verbatim>\<open>seed\<close> of the notebook.\<close>

definition notebook_seed :: nat where
  "notebook_seed = 7"

definition training_args :: training_arguments where
  "training_args =
     \<lparr>output_dir = ''./results_'' @ experiment_name,
      num_train_epochs = 5,
      per_device_train_batch_size = 1,
      per_device_eval_batch_size = 1,
      warmup_steps = 1000,
      learning_rate = ''1e-03'',
      weight_decay = ''0.0'',
      logging_dir = ''./logs_'' @ experiment_name,
      logging_steps = 200,
      do_train = True,
      do_eval = True,
      evaluation_strategy = ''epoch'',
      gradient_accumulation_steps = 16,
      fp16 = False,
      fp16_opt_level = ''02'',
      run_name = experiment_name,
      seed = notebook_seed,
      load_best_model_at_end = True,
      metric_for_best_model = ''eval_spearmanr'',
      greater_is_better = True,
      save_strategy = ''epoch''\<rparr>"

section \<open>The regression head and the trainer\<close>

text \<open>
  \<^verbatim>\<open>
  def model_init(embed_dim, training_labels_mean=None):
      hidden_dim = int(embed_dim / 2)
      num_hidden_layers = 1
      nlayers = 1
      nhead = 4
      dropout = 0.2
      conv_kernel_size = 7
      pooling = 'max' # available pooling methods ['avg', 'max']
      downstream_model = ankh.ConvBertForRegression(input_dim=embed_dim,
                                                    nhead=nhead,
                                                    hidden_dim=hidden_dim,
                                                    num_hidden_layers=num_hidden_layers,
                                                    num_layers=nlayers,
                                                    kernel_size=conv_kernel_size,
                                                    dropout=dropout,
                                                    pooling=pooling,
                                                    training_labels_mean=training_labels_mean)
      return downstream_model.cuda()
  \<close>
  The record holds the keyword arguments of \<^verbatim>\<open>ankh.ConvBertForRegression\<close>; the
  constructor itself is external and is the parameter \<open>ConvBertForRegression\<close>.
  \<^verbatim>\<open>int(embed_dim / 2)\<close> of a non-negative integer is its half, rounded down.
\<close>

record 'a regression_config =
  cfg_input_dim :: nat
  cfg_nhead :: nat
  cfg_hidden_dim :: nat
  cfg_num_hidden_layers :: nat
  cfg_num_layers :: nat
  cfg_kernel_size :: nat
  cfg_dropout :: string
  cfg_pooling :: string
  cfg_training_labels_mean :: "'a option"

definition model_init :: "('a regression_config \<Rightarrow> 'm) \<Rightarrow> nat \<Rightarrow> 'a option \<Rightarrow> 'm" where
  "model_init ConvBertForRegression embed_dim training_labels_mean =
     (let hidden_dim = embed_dim div 2;
          num_hidden_layers = 1;
          nlayers = 1;
          nhead = 4;
          dropout = ''0.2'';
          conv_kernel_size = 7;
          pooling = ''max''
      in ConvBertForRegression
           \<lparr>cfg_input_dim = embed_dim, cfg_nhead = nhead, cfg_hidden_dim = hidden_dim,
            cfg_num_hidden_layers = num_hidden_layers, cfg_num_layers = nlayers,
            cfg_kernel_size = conv_kernel_size, cfg_dropout = dropout, cfg_pooling = pooling,
            cfg_training_labels_mean = training_labels_mean\<rparr>)"

text \<open>\<^verbatim>\<open>model_embed_dim = 1536\<close>\<close>

definition model_embed_dim :: nat where
  "model_embed_dim = 1536"

text \<open>
  \<^verbatim>\<open>
  trainer = Trainer(
      model_init=partial(model_init, embed_dim=model_embed_dim, training_labels_mean=training_labels_mean),
      args=training_args,
      train_dataset=training_dataset,
      eval_dataset=validation_dataset,
      compute_metrics=compute_metrics,
  )
  \<close>
  The record holds the keyword arguments the notebook hands to the external
  \<^verbatim>\<open>Trainer\<close>. \<^verbatim>\<open>training_labels_mean\<close> is \<^verbatim>\<open>np.mean\<close> of the training labels, a
  parameter here.
\<close>

record ('m, 'a) trainer =
  tr_model_init :: "unit \<Rightarrow> 'm"
  tr_args :: training_arguments
  tr_train_dataset :: "'a fluorescence_dataset"
  tr_eval_dataset :: "'a fluorescence_dataset"
  tr_compute_metrics :: "'a eval_prediction \<Rightarrow> (string \<times> 'a) list"

definition notebook_trainer ::
  "('a regression_config \<Rightarrow> 'm) \<Rightarrow> ('a list \<Rightarrow> 'a list \<Rightarrow> 'a) \<Rightarrow> 'a
   \<Rightarrow> 'a fluorescence_dataset \<Rightarrow> 'a fluorescence_dataset \<Rightarrow> ('m, 'a) trainer" where
  "notebook_trainer ConvBertForRegression spearmanr training_labels_mean
     training_dataset validation_dataset =
     \<lparr>tr_model_init =
        (\<lambda>_. model_init ConvBertForRegression model_embed_dim (Some training_labels_mean)),
      tr_args = training_args,
      tr_train_dataset = training_dataset,
      tr_eval_dataset = validation_dataset,
      tr_compute_metrics = compute_metrics spearmanr\<rparr>"

section \<open>The external training loop\<close>

text \<open>
  Modelled from the spec: the training loop itself (\<^verbatim>\<open>Trainer.train\<close> of the external
  training framework) is not under \<^verbatim>\<open>src/\<close>; the notebook only constructs the trainer
  and calls \<^verbatim>\<open>trainer.train()\<close>. The specification describes it as "an external
  training loop with epoch-based evaluation and checkpoint selection by a
  rank-correlation metric maximized over epochs", whose output is "trained model
  checkpoints and logs". The state of the loop: the current model, the logged
  evaluations (epoch and metrics), the saved checkpoints (epoch and model), and the best
  metric value so far with its checkpoint.
\<close>

record ('m, 'a) train_state =
  ts_model :: 'm
  ts_evaluations :: "(nat \<times> (string \<times> 'a) list) list"
  ts_checkpoints :: "(nat \<times> 'm) list"
  ts_best :: "('a \<times> 'm) option"

text \<open>
  Modelled from the spec: the key prefix of the absent training loop. The loop reports
  the metrics of \<^verbatim>\<open>compute_metrics\<close> under keys that start with \<^verbatim>\<open>eval_\<close> (the notebook
  selects by \<^verbatim>\<open>eval_spearmanr\<close> while \<^verbatim>\<open>compute_metrics\<close> returns \<^verbatim>\<open>spearmanr\<close>): a key
  that does not start with \<^verbatim>\<open>eval_\<close> is renamed, a key that does is kept.
\<close>

definition has_eval_prefix :: "string \<Rightarrow> bool" where
  "has_eval_prefix k = (take 5 k = ''eval_'')"

text \<open>
  Modelled from the spec: the renaming of the metrics by the absent training loop. A
  renamed entry takes the place of an entry that already has the prefixed key.
\<close>

definition prefix_metrics :: "(string \<times> 'a) list \<Rightarrow> (string \<times> 'a) list" where
  "prefix_metrics ms =
     map (\<lambda>(k, v). (''eval_'' @ k, v)) (filter (\<lambda>(k, v). \<not> has_eval_prefix k) ms)
     @ filter (\<lambda>(k, v). has_eval_prefix k) ms"

text \<open>
  Modelled from the spec: the comparison of the absent training loop's checkpoint
  selection, "maximized over epochs" when \<^verbatim>\<open>greater_is_better\<close> is set. Metric values
  are taken from a linear order.
\<close>

definition better :: "bool \<Rightarrow> 'a::linorder \<Rightarrow> 'a \<Rightarrow> bool" where
  "better prefer_greater new old = (if prefer_greater then old < new else new < old)"

text \<open>
  Modelled from the spec: the end of one epoch of the absent training loop. \<open>fit\<close>
  (one epoch of optimisation on the training dataset) and \<open>predict\<close> (predictions and
  labels on the evaluation dataset) are its numerical parts, parameters here. With
  \<^verbatim>\<open>evaluation_strategy="epoch"\<close> the model is evaluated and the metrics are logged; with
  \<^verbatim>\<open>save_strategy="epoch"\<close> a checkpoint is saved, and when the epoch was evaluated the
  value of \<^verbatim>\<open>metric_for_best_model\<close> (\<^verbatim>\<open>KeyError\<close> when no metric has that key) is
  compared with the best so far.
\<close>

definition epoch_end ::
  "('m \<Rightarrow> 'a fluorescence_dataset \<Rightarrow> 'm) \<Rightarrow> ('m \<Rightarrow> 'a fluorescence_dataset \<Rightarrow> 'a eval_prediction)
   \<Rightarrow> ('m, 'a::linorder) trainer \<Rightarrow> nat \<Rightarrow> ('m, 'a) train_state
   \<Rightarrow> py_error + ('m, 'a) train_state" where
  "epoch_end fit predict trainer epoch st =
     (let args = tr_args trainer;
          m = fit (ts_model st) (tr_train_dataset trainer);
          metrics = (if evaluation_strategy args = ''epoch''
                     then Some (prefix_metrics
                            (tr_compute_metrics trainer (predict m (tr_eval_dataset trainer))))
                     else None);
          st1 = st\<lparr>ts_model := m,
                    ts_evaluations := ts_evaluations st
                      @ (case metrics of None \<Rightarrow> [] | Some ms \<Rightarrow> [(epoch, ms)])\<rparr>
      in if save_strategy args \<noteq> ''epoch'' then Inr st1
         else (let st2 = st1\<lparr>ts_checkpoints := ts_checkpoints st1 @ [(epoch, m)]\<rparr> in
               case metrics of
                 None \<Rightarrow> Inr st2
               | Some ms \<Rightarrow>
                   (case map_of ms (metric_for_best_model args) of
                      None \<Rightarrow> Inl KeyError
                    | Some v \<Rightarrow>
                        if (case ts_best st2 of
                              None \<Rightarrow> True
                            | Some (b, _) \<Rightarrow> better (greater_is_better args) v b)
                        then Inr (st2\<lparr>ts_best := Some (v, m)\<rparr>)
                        else Inr st2)))"

text \<open>Modelled from the spec: the epochs of the absent training loop, one after another.\<close>

fun train_epochs ::
  "('m \<Rightarrow> 'a fluorescence_dataset \<Rightarrow> 'm) \<Rightarrow> ('m \<Rightarrow> 'a fluorescence_dataset \<Rightarrow> 'a eval_prediction)
   \<Rightarrow> ('m, 'a::linorder) trainer \<Rightarrow> ('m, 'a) train_state \<Rightarrow> nat list
   \<Rightarrow> py_error + ('m, 'a) train_state" where
  "train_epochs fit predict trainer st [] = Inr st"
| "train_epochs fit predict trainer st (epoch # rest) =
     (case epoch_end fit predict trainer epoch st of
        Inl e \<Rightarrow> Inl e
      | Inr st' \<Rightarrow> train_epochs fit predict trainer st' rest)"

text \<open>
  Modelled from the spec: \<^verbatim>\<open>trainer.train()\<close> of the absent training loop. The model
  comes from \<^verbatim>\<open>model_init\<close>, the epochs \<open>1..num_train_epochs\<close> run, and with
  \<^verbatim>\<open>load_best_model_at_end\<close> the best checkpoint becomes the model.
\<close>

definition trainer_train ::
  "('m \<Rightarrow> 'a fluorescence_dataset \<Rightarrow> 'm) \<Rightarrow> ('m \<Rightarrow> 'a fluorescence_dataset \<Rightarrow> 'a eval_prediction)
   \<Rightarrow> ('m, 'a::linorder) trainer \<Rightarrow> py_error + ('m, 'a) train_state" where
  "trainer_train fit predict trainer =
     (let args = tr_args trainer;
          st0 = \<lparr>ts_model = tr_model_init trainer (), ts_evaluations = [],
                 ts_checkpoints = [], ts_best = None\<rparr>
      in case train_epochs fit predict trainer st0 [1..<Suc (num_train_epochs args)] of
           Inl e \<Rightarrow> Inl e
         | Inr st \<Rightarrow>
             Inr (if load_best_model_at_end args
                  then (case ts_best st of None \<Rightarrow> st | Some (v, m) \<Rightarrow> st\<lparr>ts_model := m\<rparr>)
                  else st))"

section \<open>Predicates of the statements and a concrete instance\<close>

text \<open>
  The encoder's output has a batch axis that is not empty and a row axis: the condition
  under which \<^verbatim>\<open>embedding[0]\<close> and the slice of its rows raise nothing.
\<close>

definition has_rows :: "'a ndarray \<Rightarrow> bool" where
  "has_rows t = (case nd_shape t of n # m # rest \<Rightarrow> 0 < n | _ \<Rightarrow> False)"

text \<open>
  The state \<open>w'\<close> comes from \<open>w\<close> by forward passes only, all of them with the
  gradient mode off: parameters, training flag and gradient mode are those of \<open>w\<close>.
\<close>

definition extends_frozen :: "'p world \<Rightarrow> 'p world \<Rightarrow> bool" where
  "extends_frozen w w' \<longleftrightarrow>
     model_params w' = model_params w \<and> model_training w' = model_training w
     \<and> grad_enabled w' = grad_enabled w
     \<and> (\<exists>new. forward_passes w' = forward_passes w @ new
            \<and> (\<forall>c \<in> set new. \<not> pass_grad c \<and> pass_training c = model_training w))"

text \<open>
  A small tokenizer, encoder and initial state on which the model is evaluated in the
  examples below. The tokenizer gives each word the id \<open>2 + len word\<close>, appends the end
  token \<open>1\<close> when special tokens are asked for, and pads with \<open>0\<close> to the longest
  sample of the batch; the encoder gives each id a row of two numbers.
\<close>

definition toy_tokenizer :: tokenizer where
  "toy_tokenizer opts batch =
     (let special = (if add_special_tokens opts then [1] else []);
          width = fold max (map length batch) 0 + length special;
          row = (\<lambda>sample. map (\<lambda>word. 2 + length word) sample @ special);
          pad = (\<lambda>ids. ids @ replicate (width - length ids) 0)
      in \<lparr>input_ids = \<lparr>nd_dtype = Int64, nd_shape = [length batch, width],
                          nd_data = concat (map (\<lambda>sample. pad (row sample)) batch)\<rparr>,
          attention_mask = \<lparr>nd_dtype = Int64, nd_shape = [length batch, width],
                          nd_data = concat (map (\<lambda>sample.
                             replicate (length (row sample)) 1
                             @ replicate (width - length (row sample)) 0) batch)\<rparr>\<rparr>)"

definition toy_encoder :: "(int, int) encoder" where
  "toy_encoder p training ids =
     \<lparr>nd_dtype = Float32, nd_shape = nd_shape ids @ [2],
      nd_data = concat (map (\<lambda>i. [int i + p, int i * p]) (nd_data ids))\<rparr>"

definition toy_world :: "int world" where
  "toy_world = \<lparr>grad_enabled = True, model_training = True, model_params = 10,
                 forward_passes = []\<rparr>"

text \<open>
  The model after \<open>k\<close> epochs of optimisation, and the score of a model: the metric of
  \<^verbatim>\<open>compute_metrics\<close> on its predictions for the evaluation dataset.
\<close>

definition epoch_model :: "('m \<Rightarrow> 'd \<Rightarrow> 'm) \<Rightarrow> 'd \<Rightarrow> 'm \<Rightarrow> nat \<Rightarrow> 'm" where
  "epoch_model fit training_dataset m0 k = ((\<lambda>m. fit m training_dataset) ^^ k) m0"

definition eval_score ::
  "('a list \<Rightarrow> 'a list \<Rightarrow> 'a) \<Rightarrow> ('m \<Rightarrow> 'd \<Rightarrow> 'a eval_prediction) \<Rightarrow> 'd \<Rightarrow> 'm \<Rightarrow> 'a" where
  "eval_score spearmanr predict validation_dataset m =
     spearmanr (label_ids (predict m validation_dataset))
       (predictions (predict m validation_dataset))"

text \<open>
  \<open>best\<close> is the best of the models \<open>ms\<close>: none when there is no model, else one of
  them with its score, and no model of \<open>ms\<close> scores higher.
\<close>

definition best_ok :: "('m \<Rightarrow> 'a::linorder) \<Rightarrow> 'm list \<Rightarrow> ('a \<times> 'm) option \<Rightarrow> bool" where
  "best_ok score ms best =
     (case best of
        None \<Rightarrow> ms = []
      | Some (v, m) \<Rightarrow> m \<in> set ms \<and> v = score m \<and> (\<forall>m' \<in> set ms. score m' \<le> score m))"

text \<open>
  A small training backend for the examples: an epoch adds one to the model (a number),
  the model predicts itself for every label, and the score is minus the summed distance
  between labels and predictions.
\<close>

definition toy_fit :: "int \<Rightarrow> int fluorescence_dataset \<Rightarrow> int" where
  "toy_fit m ds = m + 1"

definition toy_predict :: "int \<Rightarrow> int fluorescence_dataset \<Rightarrow> int eval_prediction" where
  "toy_predict m ds = \<lparr>predictions = map (\<lambda>l. m) (self_labels ds), label_ids = self_labels ds\<rparr>"

definition toy_spearmanr :: "int list \<Rightarrow> int list \<Rightarrow> int" where
  "toy_spearmanr ls ps = - sum_list (map (\<lambda>(l, p). \<bar>l - p\<bar>) (zip ls ps))"

section \<open>Properties of the preprocessor\<close>

lemma length_list_of: "length (list_of s) = py_len s"
  by (cases s) simp_all

lemma py_len_slice_to:
  "py_len (slice_to L s) = slice_bound L (py_len s)"
  by (cases s) (simp_all add: py_slice_def Let_def slice_bound_def)

lemma length_truncate_seq:
  "length (truncate_seq L s) = slice_bound L (py_len s)"
  by (simp add: truncate_seq_def length_list_of py_len_slice_to)

lemma slice_bound_nonneg:
  "0 \<le> L \<Longrightarrow> int (slice_bound L n) = min (int n) L"
  by (simp add: slice_bound_def)

lemma foldl_max_key:
  fixes k :: "'a \<Rightarrow> nat"
  shows "k (foldl (\<lambda>m y. if k m < k y then y else m) x xs) = Max (insert (k x) (k ` set xs))"
proof (induction xs arbitrary: x)
  case Nil
  show ?case by simp
next
  case (Cons y ys)
  let ?S = "k ` set ys"
  have fin: "finite ?S" by simp
  show ?case
  proof (cases "k x < k y")
    case True
    have "k y \<le> Max (insert (k y) ?S)"
      using fin by (intro Max_ge) simp_all
    with True have "k x \<le> Max (insert (k y) ?S)" by linarith
    then have "Max (insert (k x) (insert (k y) ?S)) = Max (insert (k y) ?S)"
      using fin by (simp add: max_absorb2)
    with True Cons.IH [of y] show ?thesis by simp
  next
    case False
    have "k x \<le> Max (insert (k x) ?S)"
      using fin by (intro Max_ge) simp_all
    with False have "k y \<le> Max (insert (k x) ?S)" by linarith
    then have "Max (insert (k y) (insert (k x) ?S)) = Max (insert (k x) ?S)"
      using fin by (simp add: max_absorb2)
    with False Cons.IH [of x] show ?thesis
      by (simp add: insert_commute)
  qed
qed

lemma default_max_length_eq:
  "ts \<noteq> [] \<Longrightarrow> default_max_length ts = Inr (int (Max (py_len ` set ts)))"
  by (cases ts) (simp_all add: default_max_length_def foldl_max_key)

lemma default_max_length_empty: "default_max_length [] = Inl ValueError"
  by (simp add: default_max_length_def)

lemma slice_bound_whole: "int n \<le> L \<Longrightarrow> slice_bound L n = n"
  by (simp add: slice_bound_def)

lemma py_slice_whole: "int (length xs) \<le> L \<Longrightarrow> py_slice None (Some L) xs = xs"
  by (simp add: py_slice_def slice_bound_whole)

lemma py_slice_take: "0 \<le> L \<Longrightarrow> py_slice None (Some L) xs = take (nat L) xs"
  by (auto simp add: py_slice_def slice_bound_def Let_def min_def)

lemma truncate_seq_Str:
  "0 \<le> L \<Longrightarrow> truncate_seq L (Str s) = map (\<lambda>c. [c]) (take (nat L) s)"
  by (simp add: truncate_seq_def py_slice_take)

lemma default_max_length_nonneg: "default_max_length ts = Inr L \<Longrightarrow> 0 \<le> L"
  by (auto simp add: default_max_length_def split: sum.splits)

text \<open>
  C1: for every input sequence \<open>s\<close> and every maximum length \<open>L\<close>, which is either a
  non-negative integer passed as \<^verbatim>\<open>max_length\<close> or the default taken from the training
  sequences (never negative), \<^verbatim>\<open>preprocess_dataset\<close> returns, and the character list
  it makes of \<open>s\<close> has length \<open>min (len s) L\<close>.
\<close>

theorem C1_truncation_length:
  assumes "effective_max_length ts max_length = Inr L"
    and "max_length = None \<or> 0 \<le> L"
  shows "preprocess_dataset ts sequences labels max_length
           = Inr (map (truncate_seq L) sequences, labels)
         \<and> map (\<lambda>x. int (length x)) (map (truncate_seq L) sequences)
           = map (\<lambda>s. min (int (py_len s)) L) sequences"
proof -
  have "0 \<le> L"
    using assms by (auto simp add: effective_max_length_def default_max_length_nonneg)
  with assms(1) show ?thesis
    by (simp add: preprocess_dataset_def length_truncate_seq slice_bound_nonneg)
qed

theorem C1_truncation_length_witness:
  "effective_max_length [] (Some 2) = Inr 2 \<and> (0::int) \<le> 2
   \<and> preprocess_dataset [] [Str ''ABC'', Str ''A''] [0::int, 1] (Some 2)
       = Inr ([[''A'', ''B''], [''A'']], [0, 1])
   \<and> map (\<lambda>x. int (length x)) [[''A'', ''B''], [''A'']] = [2, 1]
   \<and> effective_max_length [Str ''AB'', Str ''A''] None = Inr 2
   \<and> preprocess_dataset [Str ''AB'', Str ''A''] [Str ''ABC'', Str ''A''] [0::int, 1] None
       = Inr ([[''A'', ''B''], [''A'']], [0, 1])"
  using C1_truncation_length [of "[]" "Some 2" 2 "[Str ''ABC'', Str ''A'']" "[0::int, 1]"]
    C1_truncation_length [of "[Str ''AB'', Str ''A'']" None 2 "[Str ''ABC'', Str ''A'']"
      "[0::int, 1]"]
  by (simp add: effective_max_length_def default_max_length_def truncate_seq_def
        py_slice_def slice_bound_def)

text \<open>
  C4, as the specification states it: a sequence shorter than the maximum would be
  padded to it. The preprocessor never pads: \<^verbatim>\<open>"AB"\<close> with \<^verbatim>\<open>max_length=5\<close> stays at
  two characters.
\<close>

theorem C4_no_padding_counterexample:
  "int (py_len (Str ''AB'')) < 5
   \<and> preprocess_dataset [] [Str ''AB''] [0::int] (Some 5) = Inr ([[''A'', ''B'']], [0])
   \<and> int (length (truncate_seq 5 (Str ''AB''))) \<noteq> 5"
  by (simp add: preprocess_dataset_def effective_max_length_def truncate_seq_def
        py_slice_def slice_bound_def)

text \<open>
  C4, amended: for input strings and a non-negative maximum length \<open>L\<close>, every output
  element is the list of the one-character strings of the first \<open>L\<close> characters of its
  sequence: a sequence longer than \<open>L\<close> is cut after \<open>L\<close> characters, and a sequence
  of at most \<open>L\<close> characters is kept whole (nothing is padded).
\<close>

theorem C4_truncate_to_characters:
  assumes "effective_max_length ts max_length = Inr L" and "0 \<le> L"
  shows "preprocess_dataset ts (map Str ss) labels max_length
           = Inr (map (\<lambda>s. map (\<lambda>c. [c]) (take (nat L) s)) ss, labels)
         \<and> (\<forall>s \<in> set ss. \<forall>c \<in> set (truncate_seq L (Str s)). length c = 1)
         \<and> (\<forall>s \<in> set ss. L < int (length s) \<longrightarrow>
               int (length (truncate_seq L (Str s))) = L
               \<and> concat (truncate_seq L (Str s)) = take (nat L) s)
         \<and> (\<forall>s \<in> set ss. int (length s) \<le> L \<longrightarrow>
               truncate_seq L (Str s) = map (\<lambda>c. [c]) s)"
proof -
  have cat: "concat (map (\<lambda>c. [c]) xs) = xs" for xs :: string
    by (induction xs) simp_all
  have "preprocess_dataset ts (map Str ss) labels max_length
          = Inr (map (\<lambda>s. map (\<lambda>c. [c]) (take (nat L) s)) ss, labels)"
    using assms by (simp add: preprocess_dataset_def truncate_seq_Str comp_def)
  moreover have "\<forall>s \<in> set ss. \<forall>c \<in> set (truncate_seq L (Str s)). length c = 1"
    using assms(2) by (auto simp: truncate_seq_Str)
  moreover have "\<forall>s \<in> set ss. L < int (length s) \<longrightarrow>
               int (length (truncate_seq L (Str s))) = L
               \<and> concat (truncate_seq L (Str s)) = take (nat L) s"
    using assms(2) by (auto simp add: truncate_seq_Str cat min_def)
  moreover have "\<forall>s \<in> set ss. int (length s) \<le> L \<longrightarrow>
               truncate_seq L (Str s) = map (\<lambda>c. [c]) s"
    using assms(2) by (simp add: truncate_seq_Str)
  ultimately show ?thesis by blast
qed

theorem C4_truncate_to_characters_witness:
  "effective_max_length [] (Some 2) = Inr 2 \<and> (0::int) \<le> 2
   \<and> preprocess_dataset [] (map Str [''ABC'', ''A'']) [0::int, 1] (Some 2)
       = Inr ([[''A'', ''B''], [''A'']], [0, 1])
   \<and> truncate_seq 2 (Str ''ABC'') = [''A'', ''B'']
   \<and> truncate_seq 2 (Str ''A'') = [''A'']"
  using C4_truncate_to_characters [of "[]" "Some 2" 2 "[''ABC'', ''A'']" "[0::int, 1]"]
  by (simp add: effective_max_length_def truncate_seq_def py_slice_def slice_bound_def)

text \<open>
  C9: when the training split is not empty, the default bound is the length of its
  longest sequence; truncating the training sequences to that bound leaves each of
  their lengths unchanged, so the bound read from the rebound global by the validation
  and test calls is the same, and the cell truncates all three splits to it.
\<close>

theorem C9_same_bound_for_all_splits:
  assumes "training_sequences \<noteq> []"
  shows "default_max_length training_sequences
           = Inr (int (Max (py_len ` set training_sequences)))
         \<and> map length (map (truncate_seq (int (Max (py_len ` set training_sequences))))
               training_sequences) = map py_len training_sequences
         \<and> default_max_length
               (map Lst (map (truncate_seq (int (Max (py_len ` set training_sequences))))
                  training_sequences))
           = default_max_length training_sequences
         \<and> preprocess_cell training_sequences training_labels
               validation_sequences validation_labels test_sequences test_labels
           = Inr ((map (truncate_seq (int (Max (py_len ` set training_sequences))))
                     training_sequences, training_labels),
                  (map (truncate_seq (int (Max (py_len ` set training_sequences))))
                     validation_sequences, validation_labels),
                  (map (truncate_seq (int (Max (py_len ` set training_sequences))))
                     test_sequences, test_labels))"
proof -
  define L where "L = int (Max (py_len ` set training_sequences))"
  define out where "out = map (truncate_seq L) training_sequences"
  have d0: "default_max_length training_sequences = Inr L"
    using assms by (simp add: default_max_length_eq L_def)
  have le: "int (py_len s) \<le> L" if "s \<in> set training_sequences" for s
    using that by (simp add: L_def)
  have lens: "map length out = map py_len training_sequences"
    by (simp add: out_def length_truncate_seq slice_bound_whole le)
  have img: "py_len ` set (map Lst out) = py_len ` set training_sequences"
  proof -
    have "py_len ` set (map Lst out) = set (map length out)"
      by (simp add: image_image)
    also have "\<dots> = py_len ` set training_sequences"
      by (simp add: lens)
    finally show ?thesis .
  qed
  have ne: "map Lst out \<noteq> []"
    using assms by (simp add: out_def)
  have d1: "default_max_length (map Lst out) = Inr L"
    using default_max_length_eq [OF ne] by (simp only: img L_def)
  have cell: "preprocess_cell training_sequences training_labels
               validation_sequences validation_labels test_sequences test_labels
           = Inr ((out, training_labels),
                  (map (truncate_seq L) validation_sequences, validation_labels),
                  (map (truncate_seq L) test_sequences, test_labels))"
    by (simp add: preprocess_cell_def preprocess_dataset_def effective_max_length_def
          d0 d1 out_def [symmetric])
  show ?thesis
    using d0 d1 lens cell unfolding out_def L_def by simp
qed

theorem C9_same_bound_for_all_splits_witness:
  "[Str ''ABC'', Str ''AB''] \<noteq> []
   \<and> default_max_length [Str ''ABC'', Str ''AB''] = Inr 3
   \<and> default_max_length [Lst [''A'', ''B'', ''C''], Lst [''A'', ''B'']] = Inr 3
   \<and> preprocess_cell [Str ''ABC'', Str ''AB''] [1::int, 2] [Str ''ABCDE''] [3] [Str ''A''] [4]
       = Inr (([[''A'', ''B'', ''C''], [''A'', ''B'']], [1, 2]),
              ([[''A'', ''B'', ''C'']], [3]),
              ([[''A'']], [4]))"
  using C9_same_bound_for_all_splits [of "[Str ''ABC'', Str ''AB'']" "[1::int, 2]"
      "[Str ''ABCDE'']" "[3]" "[Str ''A'']" "[4]"]
  by (simp add: truncate_seq_def py_slice_def slice_bound_def default_max_length_def)

section \<open>Properties of the embedding extractor\<close>

lemma embed_sample_world:
  "snd (embed_sample tok fwd sl sr w s) =
     w\<lparr>forward_passes := forward_passes w @
          [\<lparr>pass_batch = [s], pass_input = input_ids (tok embed_encode_options [s]),
            pass_grad = grad_enabled w, pass_training = model_training w\<rparr>]\<rparr>"
  by (simp add: embed_sample_def Let_def split: sum.splits)

lemma embed_sample_result_cong:
  "model_params w' = model_params w \<Longrightarrow> model_training w' = model_training w \<Longrightarrow>
   fst (embed_sample tok fwd sl sr w' s) = fst (embed_sample tok fwd sl sr w s)"
  by (simp add: embed_sample_def Let_def split: sum.splits)

lemma embed_loop_frame:
  "embed_loop tok fwd sl sr w acc ss = (r, w') \<Longrightarrow>
   model_params w' = model_params w \<and> model_training w' = model_training w
   \<and> grad_enabled w' = grad_enabled w"
proof (induction ss arbitrary: w acc)
  case Nil
  then show ?case by simp
next
  case (Cons s ss)
  obtain r1 w1 where step: "embed_sample tok fwd sl sr w s = (r1, w1)"
    by (cases "embed_sample tok fwd sl sr w s")
  have w1: "w1 = snd (embed_sample tok fwd sl sr w s)" by (simp add: step)
  have fr1: "model_params w1 = model_params w \<and> model_training w1 = model_training w
     \<and> grad_enabled w1 = grad_enabled w"
    unfolding w1 embed_sample_world by simp
  show ?case
  proof (cases r1)
    case (Inl e)
    with Cons.prems step have "w' = w1" by simp
    with fr1 show ?thesis by simp
  next
    case (Inr emb)
    with Cons.prems step have "embed_loop tok fwd sl sr w1 (acc @ [emb]) ss = (r, w')" by simp
    from Cons.IH [OF this] fr1 show ?thesis by simp
  qed
qed

lemma embed_loop_Inr_iff:
  "fst (embed_loop tok fwd sl sr w acc ss) = Inr embs \<longleftrightarrow>
   (\<exists>new. embs = acc @ new
      \<and> list_all2 (\<lambda>s e. fst (embed_sample tok fwd sl sr w s) = Inr e) ss new)"
proof (induction ss arbitrary: w acc)
  case Nil
  show ?case by auto
next
  case (Cons s ss)
  obtain r1 w1 where step: "embed_sample tok fwd sl sr w s = (r1, w1)"
    by (cases "embed_sample tok fwd sl sr w s")
  have w1: "w1 = snd (embed_sample tok fwd sl sr w s)" by (simp add: step)
  have same: "fst (embed_sample tok fwd sl sr w1 x) = fst (embed_sample tok fwd sl sr w x)" for x
    by (rule embed_sample_result_cong) (simp_all add: w1 embed_sample_world)
  show ?case
  proof (cases r1)
    case (Inl e)
    with step show ?thesis by (auto simp: list_all2_Cons1)
  next
    case (Inr emb)
    have "fst (embed_loop tok fwd sl sr w acc (s # ss)) = Inr embs \<longleftrightarrow>
          fst (embed_loop tok fwd sl sr w1 (acc @ [emb]) ss) = Inr embs"
      using step Inr by simp
    also have "\<dots> \<longleftrightarrow> (\<exists>new. embs = (acc @ [emb]) @ new
      \<and> list_all2 (\<lambda>s e. fst (embed_sample tok fwd sl sr w s) = Inr e) ss new)"
      by (simp only: Cons.IH same)
    also have "\<dots> \<longleftrightarrow> (\<exists>new. embs = acc @ new
      \<and> list_all2 (\<lambda>s e. fst (embed_sample tok fwd sl sr w s) = Inr e) (s # ss) new)"
      using step Inr by (auto simp: list_all2_Cons1)
    finally show ?thesis .
  qed
qed

lemma embed_loop_passes:
  "embed_loop tok fwd sl sr w acc ss = (r, w') \<Longrightarrow>
   \<exists>k\<le>length ss.
     forward_passes w' = forward_passes w @
       map (\<lambda>s. \<lparr>pass_batch = [s], pass_input = input_ids (tok embed_encode_options [s]),
                  pass_grad = grad_enabled w, pass_training = model_training w\<rparr>) (take k ss)
     \<and> ((\<exists>embs. r = Inr embs) \<longrightarrow> k = length ss)"
proof (induction ss arbitrary: w acc)
  case Nil
  then show ?case by auto
next
  case (Cons s ss)
  obtain r1 w1 where step: "embed_sample tok fwd sl sr w s = (r1, w1)"
    by (cases "embed_sample tok fwd sl sr w s")
  have w1: "w1 = snd (embed_sample tok fwd sl sr w s)" by (simp add: step)
  let ?p = "\<lambda>s. \<lparr>pass_batch = [s], pass_input = input_ids (tok embed_encode_options [s]),
                  pass_grad = grad_enabled w, pass_training = model_training w\<rparr>"
  have p1: "forward_passes w1 = forward_passes w @ [?p s]"
    and g1: "grad_enabled w1 = grad_enabled w" and t1: "model_training w1 = model_training w"
    unfolding w1 embed_sample_world by simp_all
  show ?case
  proof (cases r1)
    case (Inl e)
    with Cons.prems step have "w' = w1" and "r = Inl e" by simp_all
    with p1 show ?thesis by (intro exI [of _ 1]) simp
  next
    case (Inr emb)
    with Cons.prems step have "embed_loop tok fwd sl sr w1 (acc @ [emb]) ss = (r, w')" by simp
    from Cons.IH [OF this] obtain k where k: "k \<le> length ss"
      "forward_passes w' = forward_passes w1 @ map ?p (take k ss)"
      "(\<exists>embs. r = Inr embs) \<longrightarrow> k = length ss"
      unfolding g1 t1 by blast
    show ?thesis
      using k p1 by (intro exI [of _ "Suc k"]) simp
  qed
qed

lemma embed_sample_ok_iff:
  "(\<exists>e. fst (embed_sample tok fwd sl sr w s) = Inr e) \<longleftrightarrow>
   has_rows (fwd (model_params w) (model_training w) (input_ids (tok embed_encode_options [s])))"
  by (auto simp add: embed_sample_def has_rows_def nd_index_def nd_slice_def Let_def
      split: list.splits sum.splits)

lemma embed_dataset_fst:
  "fst (embed_dataset tok fwd w ss sl sr)
     = fst (embed_loop tok fwd sl sr (w\<lparr>grad_enabled := False\<rparr>) [] ss)"
  by (simp add: embed_dataset_def Let_def split: prod.splits)

lemma embed_dataset_Inr_iff:
  "fst (embed_dataset tok fwd w ss sl sr) = Inr embs \<longleftrightarrow>
   list_all2 (\<lambda>s e. fst (embed_sample tok fwd sl sr w s) = Inr e) ss embs"
proof -
  have "fst (embed_sample tok fwd sl sr (w\<lparr>grad_enabled := False\<rparr>) s)
          = fst (embed_sample tok fwd sl sr w s)" for s
    by (rule embed_sample_result_cong) simp_all
  then show ?thesis
    by (simp add: embed_dataset_fst embed_loop_Inr_iff)
qed

lemma embed_dataset_length:
  "fst (embed_dataset tok fwd w ss sl sr) = Inr embs \<Longrightarrow> length embs = length ss"
  by (simp add: embed_dataset_Inr_iff list_all2_lengthD)

lemma embed_dataset_ok:
  assumes "\<forall>s \<in> set ss.
     has_rows (fwd (model_params w) (model_training w) (input_ids (tok embed_encode_options [s])))"
  shows "\<exists>embs. fst (embed_dataset tok fwd w ss sl sr) = Inr embs"
proof -
  have "\<forall>s \<in> set ss. \<exists>e. fst (embed_sample tok fwd sl sr w s) = Inr e"
    using assms by (simp add: embed_sample_ok_iff)
  then obtain f where f: "\<forall>s \<in> set ss. fst (embed_sample tok fwd sl sr w s) = Inr (f s)"
    by metis
  then have "list_all2 (\<lambda>s e. fst (embed_sample tok fwd sl sr w s) = Inr e) ss (map f ss)"
    by (simp add: list_all2_map2 list_all2_same)
  then show ?thesis
    by (auto simp add: embed_dataset_Inr_iff)
qed

lemma embed_dataset_frame:
  "model_params (snd (embed_dataset tok fwd w ss sl sr)) = model_params w
   \<and> model_training (snd (embed_dataset tok fwd w ss sl sr)) = model_training w
   \<and> grad_enabled (snd (embed_dataset tok fwd w ss sl sr)) = grad_enabled w"
proof -
  obtain r w' where l: "embed_loop tok fwd sl sr (w\<lparr>grad_enabled := False\<rparr>) [] ss = (r, w')"
    by (cases "embed_loop tok fwd sl sr (w\<lparr>grad_enabled := False\<rparr>) [] ss")
  from embed_loop_frame [OF l] l show ?thesis
    by (simp add: embed_dataset_def Let_def)
qed

lemma embed_dataset_passes:
  "\<exists>new. forward_passes (snd (embed_dataset tok fwd w ss sl sr)) = forward_passes w @ new
     \<and> (\<forall>c \<in> set new. \<not> pass_grad c \<and> pass_training c = model_training w
           \<and> length (pass_batch c) = 1
           \<and> pass_input c = input_ids (tok embed_encode_options (pass_batch c)))
     \<and> ((\<exists>embs. fst (embed_dataset tok fwd w ss sl sr) = Inr embs)
           \<longrightarrow> map pass_batch new = map (\<lambda>s. [s]) ss)"
proof -
  obtain r w' where l: "embed_loop tok fwd sl sr (w\<lparr>grad_enabled := False\<rparr>) [] ss = (r, w')"
    by (cases "embed_loop tok fwd sl sr (w\<lparr>grad_enabled := False\<rparr>) [] ss")
  let ?p = "\<lambda>s. \<lparr>pass_batch = [s], pass_input = input_ids (tok embed_encode_options [s]),
                  pass_grad = False, pass_training = model_training w\<rparr>"
  from embed_loop_passes [OF l] obtain k where k: "k \<le> length ss"
    "forward_passes w' = forward_passes w @ map ?p (take k ss)"
    "(\<exists>embs. r = Inr embs) \<longrightarrow> k = length ss"
    by auto
  have res: "embed_dataset tok fwd w ss sl sr = (r, w'\<lparr>grad_enabled := grad_enabled w\<rparr>)"
    using l by (simp add: embed_dataset_def Let_def)
  show ?thesis
  proof (intro exI [of _ "map ?p (take k ss)"] conjI)
    show "forward_passes (snd (embed_dataset tok fwd w ss sl sr))
            = forward_passes w @ map ?p (take k ss)"
      using k(2) by (simp add: res)
    show "\<forall>c \<in> set (map ?p (take k ss)). \<not> pass_grad c \<and> pass_training c = model_training w
           \<and> length (pass_batch c) = 1
           \<and> pass_input c = input_ids (tok embed_encode_options (pass_batch c))"
      by auto
    show "(\<exists>embs. fst (embed_dataset tok fwd w ss sl sr) = Inr embs)
           \<longrightarrow> map pass_batch (map ?p (take k ss)) = map (\<lambda>s. [s]) ss"
      using k(3) by (auto simp add: res comp_def)
  qed
qed


lemma embed_sample_default:
  assumes "nd_shape (fwd (model_params w) (model_training w)
              (input_ids (tok embed_encode_options [s]))) = [1, T, D]"
  shows "fst (embed_sample tok fwd 0 (- 1) w s)
    = Inr \<lparr>nd_dtype = nd_dtype (fwd (model_params w) (model_training w)
                         (input_ids (tok embed_encode_options [s]))),
           nd_shape = [T - 1, D],
           nd_data = take ((T - 1) * D)
                       (nd_data (fwd (model_params w) (model_training w)
                         (input_ids (tok embed_encode_options [s]))))\<rparr>"
proof -
  have "(T - 1) * D \<le> T * D" by (simp add: mult_le_mono1)
  then have m: "min ((T - 1) * D) (T * D) = (T - 1) * D" by simp
  have b: "nat (max 0 (int T - 1)) = T - 1" by linarith
  show ?thesis
    using assms m b
    by (simp add: embed_sample_def nd_index_def nd_slice_def slice_bound_def Let_def)
qed

lemma extends_frozen_refl: "extends_frozen w w"
  by (simp add: extends_frozen_def)

lemma extends_frozen_trans:
  assumes "extends_frozen w1 w2" and "extends_frozen w2 w3"
  shows "extends_frozen w1 w3"
proof -
  from assms(1) obtain n1 where n1: "forward_passes w2 = forward_passes w1 @ n1"
    "\<forall>c \<in> set n1. \<not> pass_grad c \<and> pass_training c = model_training w1"
    by (auto simp: extends_frozen_def)
  from assms(2) obtain n2 where n2: "forward_passes w3 = forward_passes w2 @ n2"
    "\<forall>c \<in> set n2. \<not> pass_grad c \<and> pass_training c = model_training w2"
    by (auto simp: extends_frozen_def)
  have t: "model_training w2 = model_training w1"
    using assms(1) by (simp add: extends_frozen_def)
  have "forward_passes w3 = forward_passes w1 @ (n1 @ n2)"
    by (simp add: n1 n2)
  moreover have "\<forall>c \<in> set (n1 @ n2). \<not> pass_grad c \<and> pass_training c = model_training w1"
    using n1(2) n2(2) t by auto
  ultimately show ?thesis
    using assms by (auto simp: extends_frozen_def)
qed

lemma extends_frozen_embed_dataset:
  "extends_frozen w (snd (embed_dataset tok fwd w ss sl sr))"
  using embed_dataset_frame [of tok fwd w ss sl sr] embed_dataset_passes [of tok fwd w ss sl sr]
  unfolding extends_frozen_def by blast

lemma extends_frozen_extract_cell:
  "extends_frozen w (snd (extract_cell tok fwd w a b c))"
proof -
  obtain r1 w1 where e1: "embed_dataset tok fwd w a 0 (- 1) = (r1, w1)"
    by (cases "embed_dataset tok fwd w a 0 (- 1)")
  obtain r2 w2 where e2: "embed_dataset tok fwd w1 b 0 (- 1) = (r2, w2)"
    by (cases "embed_dataset tok fwd w1 b 0 (- 1)")
  obtain r3 w3 where e3: "embed_dataset tok fwd w2 c 0 (- 1) = (r3, w3)"
    by (cases "embed_dataset tok fwd w2 c 0 (- 1)")
  have x1: "extends_frozen w w1"
    using extends_frozen_embed_dataset [of w tok fwd a 0 "- 1"] by (simp add: e1)
  have x2: "extends_frozen w1 w2"
    using extends_frozen_embed_dataset [of w1 tok fwd b 0 "- 1"] by (simp add: e2)
  have x3: "extends_frozen w2 w3"
    using extends_frozen_embed_dataset [of w2 tok fwd c 0 "- 1"] by (simp add: e3)
  have x12: "extends_frozen w w2" by (rule extends_frozen_trans [OF x1 x2])
  have x13: "extends_frozen w w3" by (rule extends_frozen_trans [OF x12 x3])
  show ?thesis
    using x1 x12 x13
    by (simp add: extract_cell_def e1 e2 e3 split: sum.splits)
qed

lemma extends_frozen_notebook:
  "extends_frozen (model_eval w) (snd (notebook tok fwd w a la b lb c lc))"
proof (cases "preprocess_cell a la b lb c lc")
  case (Inl e)
  then show ?thesis
    by (simp add: notebook_def Let_def extends_frozen_refl)
next
  case (Inr x)
  obtain a' la' b' lb' c' lc' where x: "x = ((a', la'), (b', lb'), (c', lc'))"
    by (metis prod.exhaust)
  obtain r w' where ec: "extract_cell tok fwd (model_eval w) a' b' c' = (r, w')"
    by (cases "extract_cell tok fwd (model_eval w) a' b' c'")
  have "extends_frozen (model_eval w) w'"
    using extends_frozen_extract_cell [of "model_eval w" tok fwd a' b' c'] by (simp add: ec)
  then show ?thesis
    by (simp add: notebook_def Let_def Inr x ec split: prod.splits sum.splits)
qed

lemma extends_frozen_take_drop:
  assumes "extends_frozen w w'"
  shows "take (length (forward_passes w)) (forward_passes w') = forward_passes w"
    and "\<forall>c \<in> set (drop (length (forward_passes w)) (forward_passes w')).
           \<not> pass_grad c \<and> pass_training c = model_training w"
  using assms by (auto simp: extends_frozen_def)

text \<open>
  C2: when the tokenizer, called as the extractor calls it (special tokens added, a
  batch of one), yields one id per residue and one end token, and the encoder yields
  one row of width \<open>D\<close> per id, then \<^verbatim>\<open>embed_dataset\<close> with the default slice returns,
  for every sequence, an embedding of shape \<open>(len s, D)\<close>: the first \<open>len s\<close> rows of
  the hidden state, the row of the end token dropped.
\<close>

theorem C2_embedding_rows:
  assumes tok: "\<forall>s \<in> set sequences.
      nd_shape (input_ids (tok embed_encode_options [s])) = [1, length s + 1]"
    and enc: "\<forall>s \<in> set sequences.
      nd_shape (fwd (model_params w) (model_training w)
                  (input_ids (tok embed_encode_options [s])))
        = nd_shape (input_ids (tok embed_encode_options [s])) @ [D]"
  shows "\<exists>embs. fst (embed_dataset tok fwd w sequences 0 (- 1)) = Inr embs
          \<and> map nd_shape embs = map (\<lambda>s. [length s, D]) sequences
          \<and> list_all2 (\<lambda>s e. nd_data e = take (length s * D)
                (nd_data (fwd (model_params w) (model_training w)
                   (input_ids (tok embed_encode_options [s]))))) sequences embs"
proof -
  let ?out = "\<lambda>s. fwd (model_params w) (model_training w)
                   (input_ids (tok embed_encode_options [s]))"
  let ?emb = "\<lambda>s. \<lparr>nd_dtype = nd_dtype (?out s), nd_shape = [length s, D],
                    nd_data = take (length s * D) (nd_data (?out s))\<rparr>"
  have one: "fst (embed_sample tok fwd 0 (- 1) w s) = Inr (?emb s)" if "s \<in> set sequences" for s
  proof -
    have "nd_shape (?out s) = [1, length s + 1, D]"
      using tok enc that by simp
    then show ?thesis
      using embed_sample_default [where fwd = fwd and w = w and tok = tok and s = s
          and T = "length s + 1" and D = D]
      by simp
  qed
  then have "list_all2 (\<lambda>s e. fst (embed_sample tok fwd 0 (- 1) w s) = Inr e)
               sequences (map ?emb sequences)"
    by (simp add: list_all2_map2 list_all2_same)
  then have "fst (embed_dataset tok fwd w sequences 0 (- 1)) = Inr (map ?emb sequences)"
    by (simp add: embed_dataset_Inr_iff)
  moreover have "map nd_shape (map ?emb sequences) = map (\<lambda>s. [length s, D]) sequences"
    by simp
  moreover have "list_all2 (\<lambda>s e. nd_data e = take (length s * D) (nd_data (?out s)))
                   sequences (map ?emb sequences)"
    by (simp add: list_all2_map2 list_all2_same)
  ultimately show ?thesis by blast
qed

theorem C2_embedding_rows_witness:
  "nd_shape (input_ids (toy_tokenizer embed_encode_options [[''A'', ''B'']])) = [1, 3]
   \<and> nd_shape (input_ids (toy_tokenizer embed_encode_options [[''C'']])) = [1, 2]
   \<and> nd_shape (toy_encoder 10 True (input_ids (toy_tokenizer embed_encode_options [[''A'', ''B'']])))
       = [1, 3, 2]
   \<and> nd_shape (toy_encoder 10 True (input_ids (toy_tokenizer embed_encode_options [[''C'']])))
       = [1, 2, 2]
   \<and> fst (embed_dataset toy_tokenizer toy_encoder toy_world [[''A'', ''B''], [''C'']] 0 (- 1))
       = Inr [\<lparr>nd_dtype = Float32, nd_shape = [2, 2], nd_data = [13, 30, 13, 30]\<rparr>,
              \<lparr>nd_dtype = Float32, nd_shape = [1, 2], nd_data = [13, 30]\<rparr>]"
  using C2_embedding_rows [of "[[''A'', ''B''], [''C'']]" toy_tokenizer toy_encoder toy_world 2]
  by (simp add: embed_dataset_def embed_sample_def nd_index_def nd_slice_def slice_bound_def
        toy_tokenizer_def toy_encoder_def toy_world_def embed_encode_options_def Let_def)

text \<open>
  C3: \<^verbatim>\<open>preprocess_dataset\<close> returns the labels it was given next to one character
  list per sequence, and \<^verbatim>\<open>embed_dataset\<close>, whenever it returns, returns one embedding
  per sequence. It returns whenever the encoder's output for each sample has a batch
  axis that is not empty and a row axis; so for a split with as many sequences as
  labels the number of embeddings equals the number of labels.
\<close>

theorem C3_one_embedding_per_label:
  assumes "length sequences = length labels"
    and "effective_max_length ts max_length = Inr L"
    and "\<forall>s \<in> set sequences.
      has_rows (fwd (model_params w) (model_training w)
                  (input_ids (tok embed_encode_options [truncate_seq L s])))"
  shows "\<exists>embs. preprocess_dataset ts sequences labels max_length
                  = Inr (map (truncate_seq L) sequences, labels)
          \<and> fst (embed_dataset tok fwd w (map (truncate_seq L) sequences) sl sr) = Inr embs
          \<and> length embs = length labels
          \<and> (\<forall>ss' embs'. fst (embed_dataset tok fwd w ss' sl sr) = Inr embs'
                \<longrightarrow> length embs' = length ss')"
proof -
  have pre: "preprocess_dataset ts sequences labels max_length
               = Inr (map (truncate_seq L) sequences, labels)"
    using assms(2) by (simp add: preprocess_dataset_def)
  have "\<forall>s \<in> set (map (truncate_seq L) sequences).
      has_rows (fwd (model_params w) (model_training w) (input_ids (tok embed_encode_options [s])))"
    using assms(3) by simp
  then have "\<exists>embs. fst (embed_dataset tok fwd w (map (truncate_seq L) sequences) sl sr)
      = Inr embs"
    by (rule embed_dataset_ok [where fwd = fwd and w = w and tok = tok
          and ss = "map (truncate_seq L) sequences" and sl = sl and sr = sr])
  then obtain embs where embs: "fst (embed_dataset tok fwd w (map (truncate_seq L) sequences) sl sr)
      = Inr embs"
    by blast
  from embed_dataset_length [OF embs] have "length embs = length labels"
    using assms(1) by simp
  with pre embs show ?thesis
    by (auto simp add: embed_dataset_length)
qed

theorem C3_one_embedding_per_label_witness:
  "length [Str ''ABC'', Str ''C''] = length [5::int, 6]
   \<and> effective_max_length [] (Some 2) = Inr 2
   \<and> has_rows (toy_encoder 10 True (input_ids (toy_tokenizer embed_encode_options [[''A'', ''B'']])))
   \<and> has_rows (toy_encoder 10 True (input_ids (toy_tokenizer embed_encode_options [[''C'']])))
   \<and> preprocess_dataset [] [Str ''ABC'', Str ''C''] [5::int, 6] (Some 2)
       = Inr ([[''A'', ''B''], [''C'']], [5, 6])
   \<and> fst (embed_dataset toy_tokenizer toy_encoder toy_world [[''A'', ''B''], [''C'']] 0 (- 1))
       = Inr [\<lparr>nd_dtype = Float32, nd_shape = [2, 2], nd_data = [13, 30, 13, 30]\<rparr>,
              \<lparr>nd_dtype = Float32, nd_shape = [1, 2], nd_data = [13, 30]\<rparr>]"
  using C3_one_embedding_per_label [of "[Str ''ABC'', Str ''C'']" "[5::int, 6]" "[]" "Some 2" 2
      toy_encoder toy_world toy_tokenizer 0 "- 1"]
  by (simp add: effective_max_length_def preprocess_dataset_def truncate_seq_def py_slice_def
        has_rows_def embed_dataset_def embed_sample_def nd_index_def nd_slice_def slice_bound_def
        toy_tokenizer_def toy_encoder_def toy_world_def embed_encode_options_def Let_def)

text \<open>
  C7: every pass of the extraction loop tokenizes a batch of exactly one sample and
  feeds the encoder the ids of that batch; when the extraction returns, the passes are
  the samples one by one, in order. The trainer's per-device batch sizes are 1.
\<close>

theorem C7_one_sample_per_forward_pass:
  "take (length (forward_passes w))
      (forward_passes (snd (embed_dataset tok fwd w sequences sl sr))) = forward_passes w
   \<and> (\<forall>c \<in> set (drop (length (forward_passes w))
                    (forward_passes (snd (embed_dataset tok fwd w sequences sl sr)))).
         length (pass_batch c) = 1
         \<and> pass_input c = input_ids (tok embed_encode_options (pass_batch c)))
   \<and> (\<forall>embs. fst (embed_dataset tok fwd w sequences sl sr) = Inr embs \<longrightarrow>
         map pass_batch (drop (length (forward_passes w))
                    (forward_passes (snd (embed_dataset tok fwd w sequences sl sr))))
           = map (\<lambda>s. [s]) sequences)
   \<and> per_device_train_batch_size training_args = 1
   \<and> per_device_eval_batch_size training_args = 1"
proof -
  from embed_dataset_passes [of tok fwd w sequences sl sr]
  obtain new where new:
    "forward_passes (snd (embed_dataset tok fwd w sequences sl sr)) = forward_passes w @ new"
    "\<forall>c \<in> set new. \<not> pass_grad c \<and> pass_training c = model_training w
           \<and> length (pass_batch c) = 1
           \<and> pass_input c = input_ids (tok embed_encode_options (pass_batch c))"
    "(\<exists>embs. fst (embed_dataset tok fwd w sequences sl sr) = Inr embs)
           \<longrightarrow> map pass_batch new = map (\<lambda>s. [s]) sequences"
    by blast
  have "per_device_train_batch_size training_args = 1"
    and "per_device_eval_batch_size training_args = 1"
    by (simp_all add: training_args_def)
  with new show ?thesis by auto
qed

theorem C7_one_sample_per_forward_pass_witness:
  "fst (embed_dataset toy_tokenizer toy_encoder toy_world [[''A'', ''B''], [''C'']] 0 (- 1))
       = Inr [\<lparr>nd_dtype = Float32, nd_shape = [2, 2], nd_data = [13, 30, 13, 30]\<rparr>,
              \<lparr>nd_dtype = Float32, nd_shape = [1, 2], nd_data = [13, 30]\<rparr>]
   \<and> map pass_batch (forward_passes
         (snd (embed_dataset toy_tokenizer toy_encoder toy_world [[''A'', ''B''], [''C'']] 0 (- 1))))
       = [[[''A'', ''B'']], [[''C'']]]"
  using C7_one_sample_per_forward_pass [of toy_world toy_tokenizer toy_encoder
      "[[''A'', ''B''], [''C'']]" 0 "- 1"]
  by (simp add: embed_dataset_def embed_sample_def nd_index_def nd_slice_def slice_bound_def
        toy_tokenizer_def toy_encoder_def toy_world_def embed_encode_options_def Let_def)

text \<open>
  C8: in the run of the notebook the encoder is put in eval mode before anything is
  extracted; every forward pass runs with the gradient mode off and the encoder in eval
  mode; and the run leaves the encoder's parameters, and the gradient mode, as they
  were. Each call of \<^verbatim>\<open>embed_dataset\<close> on its own runs its passes with the gradient mode
  off and leaves the parameters unchanged.
\<close>

theorem C8_frozen_encoder_no_grad:
  "model_params (snd (notebook tok fwd w a la b lb c lc)) = model_params w
   \<and> \<not> model_training (snd (notebook tok fwd w a la b lb c lc))
   \<and> grad_enabled (snd (notebook tok fwd w a la b lb c lc)) = grad_enabled w
   \<and> take (length (forward_passes w)) (forward_passes (snd (notebook tok fwd w a la b lb c lc)))
       = forward_passes w
   \<and> (\<forall>p \<in> set (drop (length (forward_passes w))
                    (forward_passes (snd (notebook tok fwd w a la b lb c lc)))).
         \<not> pass_grad p \<and> \<not> pass_training p)
   \<and> model_params (snd (embed_dataset tok fwd w ss sl sr)) = model_params w
   \<and> (\<forall>p \<in> set (drop (length (forward_passes w))
                    (forward_passes (snd (embed_dataset tok fwd w ss sl sr)))).
         \<not> pass_grad p)"
proof -
  have nb: "extends_frozen (model_eval w) (snd (notebook tok fwd w a la b lb c lc))"
    by (rule extends_frozen_notebook)
  have ev: "model_params (model_eval w) = model_params w" "\<not> model_training (model_eval w)"
    "grad_enabled (model_eval w) = grad_enabled w"
    "forward_passes (model_eval w) = forward_passes w"
    by (simp_all add: model_eval_def)
  have 1: "model_params (snd (notebook tok fwd w a la b lb c lc)) = model_params w"
    and 2: "\<not> model_training (snd (notebook tok fwd w a la b lb c lc))"
    and 3: "grad_enabled (snd (notebook tok fwd w a la b lb c lc)) = grad_enabled w"
    using nb ev by (simp_all add: extends_frozen_def)
  have 4: "take (length (forward_passes w))
             (forward_passes (snd (notebook tok fwd w a la b lb c lc))) = forward_passes w"
    using extends_frozen_take_drop(1) [OF nb] by (simp add: ev)
  have 5: "\<forall>p \<in> set (drop (length (forward_passes w))
                    (forward_passes (snd (notebook tok fwd w a la b lb c lc)))).
         \<not> pass_grad p \<and> \<not> pass_training p"
    using extends_frozen_take_drop(2) [OF nb] by (simp add: ev)
  have ed: "extends_frozen w (snd (embed_dataset tok fwd w ss sl sr))"
    by (rule extends_frozen_embed_dataset)
  have 6: "model_params (snd (embed_dataset tok fwd w ss sl sr)) = model_params w"
    using ed by (simp add: extends_frozen_def)
  have 7: "\<forall>p \<in> set (drop (length (forward_passes w))
                    (forward_passes (snd (embed_dataset tok fwd w ss sl sr)))). \<not> pass_grad p"
    using extends_frozen_take_drop(2) [OF ed] by simp
  from 1 2 3 4 5 6 7 show ?thesis by blast
qed

theorem C8_frozen_encoder_no_grad_witness:
  "snd (notebook toy_tokenizer toy_encoder toy_world
          [Str ''AB'', Str ''C''] [5, 6] [Str ''ABC''] [7] [] [])
     = \<lparr>grad_enabled = True, model_training = False, model_params = 10,
        forward_passes =
          [\<lparr>pass_batch = [[''A'', ''B'']],
            pass_input = \<lparr>nd_dtype = Int64, nd_shape = [1, 3], nd_data = [3, 3, 1]\<rparr>,
            pass_grad = False, pass_training = False\<rparr>,
           \<lparr>pass_batch = [[''C'']],
            pass_input = \<lparr>nd_dtype = Int64, nd_shape = [1, 2], nd_data = [3, 1]\<rparr>,
            pass_grad = False, pass_training = False\<rparr>,
           \<lparr>pass_batch = [[''A'', ''B'']],
            pass_input = \<lparr>nd_dtype = Int64, nd_shape = [1, 3], nd_data = [3, 3, 1]\<rparr>,
            pass_grad = False, pass_training = False\<rparr>]\<rparr>
   \<and> model_params toy_world = 10 \<and> forward_passes toy_world = []"
  using C8_frozen_encoder_no_grad [of toy_tokenizer toy_encoder toy_world
      "[Str ''AB'', Str ''C'']" "[5, 6]" "[Str ''ABC'']" "[7]" "[]" "[]" "[]" 0 "- 1"]
  by (simp add: notebook_def extract_cell_def preprocess_cell_def preprocess_dataset_def
        effective_max_length_def default_max_length_def truncate_seq_def py_slice_def
        model_eval_def FluorescenceDataset_def
        embed_dataset_def embed_sample_def nd_index_def nd_slice_def slice_bound_def
        toy_tokenizer_def toy_encoder_def toy_world_def embed_encode_options_def Let_def)

section \<open>Properties of the dataset adapter\<close>

lemma py_getitem_valid:
  "0 \<le> i \<Longrightarrow> i < int (length xs) \<Longrightarrow> py_getitem xs i = Inr (xs ! nat i)"
  by (simp add: py_getitem_def)

lemma unsqueeze_scalar:
  "unsqueeze (torch_scalar cast x d) (- 1)
     = Inr \<lparr>nd_dtype = d, nd_shape = [1], nd_data = [cast d x]\<rparr>"
  by (simp add: unsqueeze_def torch_scalar_def)

lemma dataset_getitem_snd: "snd (dataset_getitem cast ds idx) = ds"
  by (simp add: dataset_getitem_def split: sum.splits)

text \<open>
  The adapters the notebook builds pair as many embeddings as labels, for splits that
  are read with as many sequences as labels (\<open>notebook_datasets_paired\<close> below).
\<close>

lemma preprocess_cell_Inr:
  assumes "preprocess_cell a la b lb c lc = Inr ((a', la'), (b', lb'), (c', lc'))"
  shows "la' = la \<and> lb' = lb \<and> lc' = lc
     \<and> length a' = length a \<and> length b' = length b \<and> length c' = length c"
  using assms
  by (auto simp add: preprocess_cell_def preprocess_dataset_def split: sum.splits)

lemma extract_cell_Inr:
  assumes "fst (extract_cell tok fwd w a b c) = Inr (ea, eb, ec)"
  shows "length ea = length a \<and> length eb = length b \<and> length ec = length c"
proof -
  obtain r1 w1 where e1: "embed_dataset tok fwd w a 0 (- 1) = (r1, w1)"
    by (cases "embed_dataset tok fwd w a 0 (- 1)")
  obtain r2 w2 where e2: "embed_dataset tok fwd w1 b 0 (- 1) = (r2, w2)"
    by (cases "embed_dataset tok fwd w1 b 0 (- 1)")
  obtain r3 w3 where e3: "embed_dataset tok fwd w2 c 0 (- 1) = (r3, w3)"
    by (cases "embed_dataset tok fwd w2 c 0 (- 1)")
  from assms have r: "r1 = Inr ea" "r2 = Inr eb" "r3 = Inr ec"
    by (auto simp add: extract_cell_def e1 e2 e3 split: sum.splits)
  have "length ea = length a"
    using embed_dataset_length [of tok fwd w a 0 "- 1" ea] by (simp add: e1 r)
  moreover have "length eb = length b"
    using embed_dataset_length [of tok fwd w1 b 0 "- 1" eb] by (simp add: e2 r)
  moreover have "length ec = length c"
    using embed_dataset_length [of tok fwd w2 c 0 "- 1" ec] by (simp add: e3 r)
  ultimately show ?thesis by simp
qed

lemma notebook_datasets_paired:
  assumes "length a = length la" and "length b = length lb" and "length c = length lc"
    and "fst (notebook tok fwd w a la b lb c lc) = Inr (d1, d2, d3)"
  shows "length (self_sequences d1) = length (self_labels d1)
     \<and> length (self_sequences d2) = length (self_labels d2)
     \<and> length (self_sequences d3) = length (self_labels d3)"
proof (cases "preprocess_cell a la b lb c lc")
  case (Inl e)
  with assms(4) show ?thesis by (simp add: notebook_def Let_def)
next
  case (Inr x)
  obtain a' la' b' lb' c' lc' where x: "x = ((a', la'), (b', lb'), (c', lc'))"
    by (metis prod.exhaust)
  from preprocess_cell_Inr [OF Inr [unfolded x]]
  have p: "la' = la" "lb' = lb" "lc' = lc"
    "length a' = length a" "length b' = length b" "length c' = length c"
    by simp_all
  obtain r w' where ec: "extract_cell tok fwd (model_eval w) a' b' c' = (r, w')"
    by (cases "extract_cell tok fwd (model_eval w) a' b' c'")
  from assms(4) obtain ea eb ec' where r: "r = Inr (ea, eb, ec')"
    and d: "d1 = FluorescenceDataset ea la'" "d2 = FluorescenceDataset eb lb'"
      "d3 = FluorescenceDataset ec' lc'"
    by (auto simp add: notebook_def Let_def Inr x ec split: sum.splits)
  have "length ea = length a' \<and> length eb = length b' \<and> length ec' = length c'"
    using extract_cell_Inr [of tok fwd "model_eval w" a' b' c' ea eb ec'] by (simp add: ec r)
  with p d assms(1-3) show ?thesis
    by (simp add: FluorescenceDataset_def)
qed

text \<open>
  C5: an adapter constructed with a list of embeddings and a list of labels of the
  same length (a collection of pairs) serves every index \<open>idx\<close> with
  \<open>0 \<le> idx < len(dataset)\<close>: \<^verbatim>\<open>__getitem__\<close> returns the \<open>idx\<close>-th embedding paired
  with the \<open>idx\<close>-th label (as the float32 tensor of shape \<open>(1,)\<close>) of the lists the
  adapter was constructed with; and neither \<^verbatim>\<open>__getitem__\<close>, at any index \<open>j\<close>, nor
  \<^verbatim>\<open>__len__\<close> changes the stored lists.
\<close>

theorem C5_indexed_access:
  assumes "length embeddings = length labels"
    and "0 \<le> idx"
    and "idx < int (fst (dataset_len (FluorescenceDataset embeddings labels)))"
  shows "dataset_getitem cast (FluorescenceDataset embeddings labels) idx
           = (Inr \<lparr>item_embed = embeddings ! nat idx,
                   item_labels = \<lparr>nd_dtype = Float32, nd_shape = [1],
                                  nd_data = [cast Float32 (labels ! nat idx)]\<rparr>\<rparr>,
              FluorescenceDataset embeddings labels)
         \<and> snd (dataset_getitem cast (FluorescenceDataset embeddings labels) j)
             = FluorescenceDataset embeddings labels
         \<and> snd (dataset_len (FluorescenceDataset embeddings labels))
             = FluorescenceDataset embeddings labels"
proof -
  have l: "idx < int (length labels)"
    using assms(3) by (simp add: dataset_len_def FluorescenceDataset_def)
  then have e: "idx < int (length embeddings)"
    using assms(1) by simp
  have "dataset_getitem cast (FluorescenceDataset embeddings labels) idx
           = (Inr \<lparr>item_embed = embeddings ! nat idx,
                   item_labels = \<lparr>nd_dtype = Float32, nd_shape = [1],
                                  nd_data = [cast Float32 (labels ! nat idx)]\<rparr>\<rparr>,
              FluorescenceDataset embeddings labels)"
    using assms(2) e l
    by (simp add: dataset_getitem_def FluorescenceDataset_def py_getitem_valid
          unsqueeze_scalar torch_tensor_def)
  then show ?thesis
    by (simp add: dataset_getitem_snd dataset_len_def)
qed

theorem C5_indexed_access_witness:
  "length [\<lparr>nd_dtype = Float32, nd_shape = [2, 2], nd_data = [13, 30, 13, 30::int]\<rparr>,
           \<lparr>nd_dtype = Float32, nd_shape = [1, 2], nd_data = [13, 30]\<rparr>]
     = length [5::int, 6]
   \<and> (0::int) \<le> 1
   \<and> 1 < int (fst (dataset_len (FluorescenceDataset
           [\<lparr>nd_dtype = Float32, nd_shape = [2, 2], nd_data = [13, 30, 13, 30]\<rparr>,
            \<lparr>nd_dtype = Float32, nd_shape = [1, 2], nd_data = [13, 30]\<rparr>] [5::int, 6])))
   \<and> dataset_getitem (\<lambda>d x. x) (FluorescenceDataset
           [\<lparr>nd_dtype = Float32, nd_shape = [2, 2], nd_data = [13, 30, 13, 30]\<rparr>,
            \<lparr>nd_dtype = Float32, nd_shape = [1, 2], nd_data = [13, 30]\<rparr>] [5::int, 6]) 1
       = (Inr \<lparr>item_embed = \<lparr>nd_dtype = Float32, nd_shape = [1, 2], nd_data = [13, 30]\<rparr>,
               item_labels = \<lparr>nd_dtype = Float32, nd_shape = [1], nd_data = [6]\<rparr>\<rparr>,
          FluorescenceDataset
           [\<lparr>nd_dtype = Float32, nd_shape = [2, 2], nd_data = [13, 30, 13, 30]\<rparr>,
            \<lparr>nd_dtype = Float32, nd_shape = [1, 2], nd_data = [13, 30]\<rparr>] [5, 6])"
  using C5_indexed_access [of
      "[\<lparr>nd_dtype = Float32, nd_shape = [2, 2], nd_data = [13, 30, 13, 30]\<rparr>,
        \<lparr>nd_dtype = Float32, nd_shape = [1, 2], nd_data = [13, 30]\<rparr>]" "[5::int, 6]" 1
      "\<lambda>d x. x" 0]
  by (simp add: dataset_len_def FluorescenceDataset_def)

text \<open>
  C10: at every index that is valid for the stored lists, \<^verbatim>\<open>__getitem__\<close> returns the
  label as a float32 tensor of shape \<open>(1,)\<close>: the 0-dimensional tensor of the label with
  one dimension appended by \<^verbatim>\<open>unsqueeze(-1)\<close>. \<^verbatim>\<open>__len__\<close> is the number of labels,
  whatever the number of embeddings.
\<close>

theorem C10_label_tensor_shape:
  assumes "py_getitem (self_sequences ds) idx = Inr sample"
    and "py_getitem (self_labels ds) idx = Inr label"
  shows "fst (dataset_getitem cast ds idx)
           = Inr \<lparr>item_embed = torch_tensor sample,
                  item_labels = \<lparr>nd_dtype = Float32, nd_shape = [1],
                                 nd_data = [cast Float32 label]\<rparr>\<rparr>
         \<and> nd_shape (torch_scalar cast label Float32) = []
         \<and> unsqueeze (torch_scalar cast label Float32) (- 1)
             = Inr \<lparr>nd_dtype = Float32, nd_shape = [1], nd_data = [cast Float32 label]\<rparr>
         \<and> fst (dataset_len ds) = length (self_labels ds)
         \<and> fst (dataset_len (FluorescenceDataset embeddings labels)) = length labels"
proof -
  have "fst (dataset_getitem cast ds idx)
           = Inr \<lparr>item_embed = torch_tensor sample,
                  item_labels = \<lparr>nd_dtype = Float32, nd_shape = [1],
                                 nd_data = [cast Float32 label]\<rparr>\<rparr>"
    using assms by (simp add: dataset_getitem_def unsqueeze_scalar)
  moreover have "nd_shape (torch_scalar cast label Float32) = []"
    by (simp add: torch_scalar_def)
  moreover have "fst (dataset_len ds) = length (self_labels ds)"
    and "fst (dataset_len (FluorescenceDataset embeddings labels)) = length labels"
    by (simp_all add: dataset_len_def FluorescenceDataset_def)
  ultimately show ?thesis
    by (simp add: unsqueeze_scalar)
qed

theorem C10_label_tensor_shape_witness:
  "py_getitem [\<lparr>nd_dtype = Float32, nd_shape = [1, 2], nd_data = [13, 30::int]\<rparr>] (- 1)
     = Inr \<lparr>nd_dtype = Float32, nd_shape = [1, 2], nd_data = [13, 30]\<rparr>
   \<and> py_getitem [5::int, 6] (- 1) = Inr 6
   \<and> fst (dataset_getitem (\<lambda>d x. x)
        (FluorescenceDataset [\<lparr>nd_dtype = Float32, nd_shape = [1, 2], nd_data = [13, 30]\<rparr>]
           [6::int]) (- 1))
       = Inr \<lparr>item_embed = \<lparr>nd_dtype = Float32, nd_shape = [1, 2], nd_data = [13, 30]\<rparr>,
              item_labels = \<lparr>nd_dtype = Float32, nd_shape = [1], nd_data = [6]\<rparr>\<rparr>
   \<and> fst (dataset_len
        (FluorescenceDataset [\<lparr>nd_dtype = Float32, nd_shape = [1, 2], nd_data = [13, 30]\<rparr>]
           [5::int, 6])) = 2"
  using C10_label_tensor_shape [of
      "FluorescenceDataset [\<lparr>nd_dtype = Float32, nd_shape = [1, 2], nd_data = [13, 30]\<rparr>] [6::int]"
      "- 1" "\<lparr>nd_dtype = Float32, nd_shape = [1, 2], nd_data = [13, 30]\<rparr>" 6 "\<lambda>d x. x"
      "[]" "[]"]
  by (simp add: dataset_getitem_def dataset_len_def FluorescenceDataset_def py_getitem_def
        unsqueeze_def torch_scalar_def torch_tensor_def)

section \<open>Properties of the training run\<close>

lemma best_ok_step:
  assumes "best_ok score ms best"
  shows "best_ok score (ms @ [m])
           (if (case best of None \<Rightarrow> True | Some (b, _) \<Rightarrow> b < score m)
            then Some (score m, m) else best)"
proof (cases best)
  case None
  with assms show ?thesis by (simp add: best_ok_def)
next
  case (Some bm)
  obtain b m0 where bm: "bm = (b, m0)" by (cases bm)
  from assms Some bm have inv: "m0 \<in> set ms" "b = score m0" "\<forall>m' \<in> set ms. score m' \<le> score m0"
    by (simp_all add: best_ok_def)
  show ?thesis
  proof (cases "b < score m")
    case True
    with inv have "\<forall>m' \<in> set ms. score m' \<le> score m" by fastforce
    with True Some bm show ?thesis by (simp add: best_ok_def)
  next
    case False
    with inv have "score m \<le> score m0" by simp
    with False Some bm inv show ?thesis by (simp add: best_ok_def)
  qed
qed

lemma epoch_end_notebook:
  assumes "m = fit (ts_model st) tds"
  shows "epoch_end fit predict (notebook_trainer C sp mean tds vds) e st
     = Inr (st\<lparr>ts_model := m,
              ts_evaluations := ts_evaluations st
                 @ [(e, [(''eval_spearmanr'', eval_score sp predict vds m)])],
              ts_checkpoints := ts_checkpoints st @ [(e, m)],
              ts_best := (if (case ts_best st of None \<Rightarrow> True
                              | Some (b, _) \<Rightarrow> b < eval_score sp predict vds m)
                          then Some (eval_score sp predict vds m, m)
                          else ts_best st)\<rparr>)"
  unfolding assms
  by (simp add: epoch_end_def notebook_trainer_def training_args_def compute_metrics_def
        prefix_metrics_def has_eval_prefix_def better_def eval_score_def Let_def
      split: option.splits)

lemma epoch_model_Suc:
  "epoch_model fit tds m0 (Suc k) = fit (epoch_model fit tds m0 k) tds"
  by (simp add: epoch_model_def)

lemma train_epochs_notebook:
  fixes sp :: "'a::linorder list \<Rightarrow> 'a list \<Rightarrow> 'a"
  assumes "ts_model st = epoch_model fit tds m0 a"
    and "best_ok (eval_score sp predict vds) (map (epoch_model fit tds m0) [1..<Suc a]) (ts_best st)"
  shows "\<exists>st'. train_epochs fit predict (notebook_trainer C sp mean tds vds) st
                 [Suc a..<Suc (a + n)] = Inr st'
     \<and> ts_model st' = epoch_model fit tds m0 (a + n)
     \<and> ts_evaluations st' = ts_evaluations st
          @ map (\<lambda>k. (k, [(''eval_spearmanr'',
                            eval_score sp predict vds (epoch_model fit tds m0 k))]))
              [Suc a..<Suc (a + n)]
     \<and> ts_checkpoints st' = ts_checkpoints st
          @ map (\<lambda>k. (k, epoch_model fit tds m0 k)) [Suc a..<Suc (a + n)]
     \<and> best_ok (eval_score sp predict vds) (map (epoch_model fit tds m0) [1..<Suc (a + n)])
          (ts_best st')"
  using assms
proof (induction n arbitrary: a st)
  case 0
  then show ?case by simp
next
  case (Suc n)
  let ?M = "epoch_model fit tds m0"
  let ?score = "eval_score sp predict vds"
  let ?tr = "notebook_trainer C sp mean tds vds"
  define st1 where "st1 = st\<lparr>ts_model := ?M (Suc a),
              ts_evaluations := ts_evaluations st @ [(Suc a, [(''eval_spearmanr'', ?score (?M (Suc a)))])],
              ts_checkpoints := ts_checkpoints st @ [(Suc a, ?M (Suc a))],
              ts_best := (if (case ts_best st of None \<Rightarrow> True
                              | Some (b, _) \<Rightarrow> b < ?score (?M (Suc a)))
                          then Some (?score (?M (Suc a)), ?M (Suc a))
                          else ts_best st)\<rparr>"
  have fm: "fit (ts_model st) tds = ?M (Suc a)"
    by (simp add: epoch_model_Suc Suc.prems(1))
  have step: "epoch_end fit predict ?tr (Suc a) st = Inr st1"
    unfolding st1_def by (rule epoch_end_notebook) (simp add: fm)
  have m1: "ts_model st1 = ?M (Suc a)" by (simp add: st1_def)
  have "best_ok ?score (map ?M [1..<Suc a] @ [?M (Suc a)]) (ts_best st1)"
    using best_ok_step [OF Suc.prems(2), of "?M (Suc a)"] by (simp add: st1_def)
  then have b1: "best_ok ?score (map ?M [1..<Suc (Suc a)]) (ts_best st1)"
    by simp
  from Suc.IH [OF m1 b1] obtain st' where st':
    "train_epochs fit predict ?tr st1 [Suc (Suc a)..<Suc (Suc a + n)] = Inr st'"
    "ts_model st' = ?M (Suc a + n)"
    "ts_evaluations st' = ts_evaluations st1
          @ map (\<lambda>k. (k, [(''eval_spearmanr'', ?score (?M k))])) [Suc (Suc a)..<Suc (Suc a + n)]"
    "ts_checkpoints st' = ts_checkpoints st1
          @ map (\<lambda>k. (k, ?M k)) [Suc (Suc a)..<Suc (Suc a + n)]"
    "best_ok ?score (map ?M [1..<Suc (Suc a + n)]) (ts_best st')"
    by blast
  have upt: "[Suc a..<Suc (a + Suc n)] = Suc a # [Suc (Suc a)..<Suc (Suc a + n)]"
    by (simp add: upt_conv_Cons)
  have "train_epochs fit predict ?tr st [Suc a..<Suc (a + Suc n)] = Inr st'"
    by (simp only: upt train_epochs.simps step sum.case st'(1))
  moreover have "ts_model st' = ?M (a + Suc n)"
    using st'(2) by simp
  moreover have "ts_evaluations st' = ts_evaluations st
          @ map (\<lambda>k. (k, [(''eval_spearmanr'', ?score (?M k))])) [Suc a..<Suc (a + Suc n)]"
    by (simp only: upt st'(3)) (simp add: st1_def)
  moreover have "ts_checkpoints st' = ts_checkpoints st
          @ map (\<lambda>k. (k, ?M k)) [Suc a..<Suc (a + Suc n)]"
    by (simp only: upt st'(4)) (simp add: st1_def)
  moreover have "best_ok ?score (map ?M [1..<Suc (a + Suc n)]) (ts_best st')"
    using st'(5) by simp
  ultimately show ?case by blast
qed

text \<open>
  C6: the notebook hands the external training loop its \<^verbatim>\<open>training_args\<close>, its datasets
  and \<^verbatim>\<open>compute_metrics\<close>, and \<^verbatim>\<open>trainer.train()\<close> on that trainer returns with an
  evaluation logged at every one of the five epochs, under the key \<^verbatim>\<open>eval_spearmanr\<close>
  with the Spearman correlation of labels and predictions, a checkpoint saved at every
  epoch, and as final model the checkpoint of an epoch whose \<^verbatim>\<open>eval_spearmanr\<close> no
  epoch exceeds.
\<close>

theorem C6_training_delegation:
  fixes sp :: "'a::linorder list \<Rightarrow> 'a list \<Rightarrow> 'a"
  shows "tr_args (notebook_trainer C sp mean tds vds) = training_args
   \<and> tr_train_dataset (notebook_trainer C sp mean tds vds) = tds
   \<and> tr_eval_dataset (notebook_trainer C sp mean tds vds) = vds
   \<and> tr_compute_metrics (notebook_trainer C sp mean tds vds) = compute_metrics sp
   \<and> (\<exists>st. trainer_train fit predict (notebook_trainer C sp mean tds vds) = Inr st
        \<and> ts_evaluations st
            = map (\<lambda>k. (k, [(''eval_spearmanr'', eval_score sp predict vds
                  (epoch_model fit tds (model_init C model_embed_dim (Some mean)) k))]))
                [1..<6]
        \<and> ts_checkpoints st
            = map (\<lambda>k. (k, epoch_model fit tds (model_init C model_embed_dim (Some mean)) k))
                [1..<6]
        \<and> (\<exists>k \<in> {1..5}.
              ts_model st = epoch_model fit tds (model_init C model_embed_dim (Some mean)) k
              \<and> (\<forall>j \<in> {1..5}.
                    eval_score sp predict vds
                      (epoch_model fit tds (model_init C model_embed_dim (Some mean)) j)
                    \<le> eval_score sp predict vds
                      (epoch_model fit tds (model_init C model_embed_dim (Some mean)) k))))"
proof -
  let ?m0 = "model_init C model_embed_dim (Some mean)"
  let ?M = "epoch_model fit tds ?m0"
  let ?score = "eval_score sp predict vds"
  let ?tr = "notebook_trainer C sp mean tds vds"
  let ?st0 = "\<lparr>ts_model = ?m0, ts_evaluations = [], ts_checkpoints = [],
               ts_best = None :: ('a \<times> 'b) option\<rparr>"
  have m: "ts_model ?st0 = ?M 0" by (simp add: epoch_model_def)
  have b: "best_ok ?score (map ?M [1..<Suc 0]) (ts_best ?st0)" by (simp add: best_ok_def)
  from train_epochs_notebook [where st = ?st0 and a = 0 and n = 5 and C = C and mean = mean,
      OF m b]
  obtain st' where st':
    "train_epochs fit predict ?tr ?st0 [Suc 0..<Suc (0 + 5)] = Inr st'"
    "ts_evaluations st' = map (\<lambda>k. (k, [(''eval_spearmanr'', ?score (?M k))])) [Suc 0..<Suc (0 + 5)]"
    "ts_checkpoints st' = map (\<lambda>k. (k, ?M k)) [Suc 0..<Suc (0 + 5)]"
    "best_ok ?score (map ?M [1..<Suc (0 + 5)]) (ts_best st')"
    by auto
  have six: "[Suc 0..<Suc (0 + 5)] = [1..<6]" by simp
  from st'(4) obtain v mb where best: "ts_best st' = Some (v, mb)" "mb \<in> set (map ?M [1..<6])"
    "\<forall>m' \<in> set (map ?M [1..<6]). ?score m' \<le> ?score mb"
    by (auto simp add: best_ok_def split: option.splits)
  from best(2) obtain k where k0: "k \<in> set [1..<6]" and k2: "mb = ?M k" by auto
  from k0 have "k \<in> {1..5}" by auto
  with k2 have k: "k \<in> {1..5}" "mb = ?M k" by simp_all
  have all: "\<forall>j \<in> {1..5}. ?score (?M j) \<le> ?score (?M k)"
    using best(3) k(2) by auto
  have sel: "tr_args ?tr = training_args" "tr_model_init ?tr () = ?m0"
    by (simp_all add: notebook_trainer_def)
  have cfg: "num_train_epochs training_args = 5" "load_best_model_at_end training_args = True"
    by (simp_all add: training_args_def)
  have ep: "[1..<Suc 5] = [Suc 0..<Suc (0 + 5)]" by simp
  have run: "trainer_train fit predict ?tr = Inr (st'\<lparr>ts_model := mb\<rparr>)"
    unfolding trainer_train_def Let_def sel cfg ep st'(1)
    by (simp add: best(1))
  have "ts_evaluations (st'\<lparr>ts_model := mb\<rparr>)
          = map (\<lambda>k. (k, [(''eval_spearmanr'', ?score (?M k))])) [1..<6]"
    using st'(2) six by simp
  moreover have "ts_checkpoints (st'\<lparr>ts_model := mb\<rparr>) = map (\<lambda>k. (k, ?M k)) [1..<6]"
    using st'(3) six by simp
  moreover have "\<exists>k \<in> {1..5}. ts_model (st'\<lparr>ts_model := mb\<rparr>) = ?M k
      \<and> (\<forall>j \<in> {1..5}. ?score (?M j) \<le> ?score (?M k))"
    using k all by auto
  ultimately have "\<exists>st. trainer_train fit predict ?tr = Inr st
        \<and> ts_evaluations st = map (\<lambda>k. (k, [(''eval_spearmanr'', ?score (?M k))])) [1..<6]
        \<and> ts_checkpoints st = map (\<lambda>k. (k, ?M k)) [1..<6]
        \<and> (\<exists>k \<in> {1..5}. ts_model st = ?M k
              \<and> (\<forall>j \<in> {1..5}. ?score (?M j) \<le> ?score (?M k)))"
    using run by blast
  then show ?thesis
    by (simp add: notebook_trainer_def)
qed

lemma five_epochs: "[1..<Suc 5] = [1, 2, 3, 4, 5]"
  by code_simp

theorem C6_training_delegation_witness:
  "trainer_train toy_fit toy_predict
     (notebook_trainer (\<lambda>cfg. 0) toy_spearmanr 3 (FluorescenceDataset [] [])
        (FluorescenceDataset [\<lparr>nd_dtype = Float32, nd_shape = [1, 2], nd_data = [13, 30]\<rparr>] [3]))
   = Inr \<lparr>ts_model = 3,
          ts_evaluations =
            [(1, [(''eval_spearmanr'', - 2)]), (2, [(''eval_spearmanr'', - 1)]),
             (3, [(''eval_spearmanr'', 0)]), (4, [(''eval_spearmanr'', - 1)]),
             (5, [(''eval_spearmanr'', - 2)])],
          ts_checkpoints = [(1, 1), (2, 2), (3, 3), (4, 4), (5, 5)],
          ts_best = Some (0, 3)\<rparr>"
proof -
  let ?tr = "notebook_trainer (\<lambda>cfg. 0) toy_spearmanr 3 (FluorescenceDataset [] [])
        (FluorescenceDataset [\<lparr>nd_dtype = Float32, nd_shape = [1, 2], nd_data = [13, 30]\<rparr>] [3])"
  from C6_training_delegation [where C = "\<lambda>cfg. 0" and sp = toy_spearmanr and mean = 3
      and fit = toy_fit and predict = toy_predict
      and tds = "FluorescenceDataset [] []"
      and vds = "FluorescenceDataset [\<lparr>nd_dtype = Float32, nd_shape = [1, 2], nd_data = [13, 30]\<rparr>] [3]"]
  have "\<exists>st. trainer_train toy_fit toy_predict ?tr = Inr st"
    by (elim conjE exE) (rule exI)
  then obtain st where st: "trainer_train toy_fit toy_predict ?tr = Inr st" ..
  have sel: "tr_args ?tr = training_args" "tr_model_init ?tr () = 0"
    by (simp_all add: notebook_trainer_def model_init_def)
  have cfg: "num_train_epochs training_args = 5" "load_best_model_at_end training_args = True"
    by (simp_all add: training_args_def)
  have run: "trainer_train toy_fit toy_predict ?tr
   = Inr \<lparr>ts_model = 3,
          ts_evaluations =
            [(1, [(''eval_spearmanr'', - 2)]), (2, [(''eval_spearmanr'', - 1)]),
             (3, [(''eval_spearmanr'', 0)]), (4, [(''eval_spearmanr'', - 1)]),
             (5, [(''eval_spearmanr'', - 2)])],
          ts_checkpoints = [(1, 1), (2, 2), (3, 3), (4, 4), (5, 5)],
          ts_best = Some (0, 3)\<rparr>"
    unfolding trainer_train_def Let_def sel cfg five_epochs
    by (simp add: epoch_end_notebook [OF refl] eval_score_def toy_fit_def toy_predict_def
          toy_spearmanr_def FluorescenceDataset_def)
  with st show ?thesis by simp
qed

end
